theory Spec2Isabelle
  imports Main
begin

section \<open>Values exchanged with the identity provider\<close>

text \<open>
  A JavaScript string is modelled as a \<^typ>\<open>string\<close>, one \<^typ>\<open>char\<close> per code unit
  (\<open>.length\<close> is \<^const>\<open>length\<close>); the strings covered are those whose code units are
  below 256.

  A value that is thrown, or returned in the \<open>error\<close> property of a provider result, is
  either an instance of the provider's \<open>AuthError\<close> class or anything else. Both carry a
  message; only the first answers \<open>true\<close> to \<open>error instanceof AuthError\<close>.
\<close>

datatype js_error = AuthError string | OtherError string

fun instanceof_AuthError :: "js_error \<Rightarrow> bool" where
  "instanceof_AuthError (AuthError m) = True"
| "instanceof_AuthError (OtherError m) = False"

fun error_message :: "js_error \<Rightarrow> string" where
  "error_message (AuthError m) = m"
| "error_message (OtherError m) = m"

text \<open>
  How the evaluation of a block or of an awaited promise ends: with a value, or with a
  thrown value (a rejected promise).
\<close>

datatype 'a completion = Return 'a | Throw js_error

text \<open>The identity provider's user record is opaque to this program.\<close>

datatype User = User string

section \<open>Form values\<close>

text \<open>
  \<open>z.infer<typeof SignUpFormSchema>\<close> and \<open>z.infer<typeof SignInFormSchema>\<close> are both
  \<open>{ email: string; password: string }\<close>. The declared type admits objects with further
  own properties; \<open>extra\<close> holds them (name and value), and is empty for an object that has
  exactly the declared properties.
\<close>

record Credentials =
  email :: string
  password :: string
  extra :: "(string \<times> string) list"

text \<open>\<open>z.infer<typeof ForgotPasswordSchema>\<close>\<close>

record ForgotPasswordValues =
  email :: string

text \<open>\<open>z.infer<typeof ResetPasswordSchema>\<close>\<close>

record ResetPasswordValues =
  password :: string
  confirmPassword :: string

section \<open>The schema language\<close>

text \<open>
  Modelled from the spec: the zod library that interprets the schemas of
  \<^verbatim>\<open>auth-schema.ts\<close> is not part of the sources. A validator is a pure function from the
  raw input to either the validated, normalized value or the issues found; every check of
  a string field is evaluated and each failing check contributes its message, in the
  order the checks are declared; an object schema validates its fields in declaration
  order and its value keeps the declared properties only; a refinement is evaluated on
  the value of the schema it refines and contributes its message under the path it names.
  The field-error map sends a field name to the ordered list of messages of the rules it
  violated. The address grammar behind \<open>.email()\<close> is a parameter \<open>isEmail\<close>.
\<close>

text \<open>The regular expressions of the schemas: \<open>/[A-Z]/\<close>, \<open>/[a-z]/\<close>, \<open>/\d/\<close>, \<open>/[@$!%*?&]/\<close>.\<close>

datatype regex = CharRange char char | DigitClass | CharSet string

fun regex_char :: "regex \<Rightarrow> char \<Rightarrow> bool" where
  "regex_char (CharRange lo hi) c =
     ((of_char lo :: nat) \<le> of_char c \<and> (of_char c :: nat) \<le> of_char hi)"
| "regex_char DigitClass c = ((48 :: nat) \<le> of_char c \<and> (of_char c :: nat) \<le> 57)"
| "regex_char (CharSet cs) c = (c \<in> set cs)"

text \<open>None of the expressions is anchored: \<open>test\<close> succeeds when some character matches.\<close>

definition regex_test :: "regex \<Rightarrow> string \<Rightarrow> bool" where
  "regex_test r s = list_ex (regex_char r) s"

datatype string_check =
    Email string
  | Min nat string
  | Regex regex string

fun check_message :: "string_check \<Rightarrow> string" where
  "check_message (Email m) = m"
| "check_message (Min n m) = m"
| "check_message (Regex r m) = m"

fun check_passes :: "(string \<Rightarrow> bool) \<Rightarrow> string_check \<Rightarrow> string \<Rightarrow> bool" where
  "check_passes isEmail (Email m) s = isEmail s"
| "check_passes isEmail (Min n m) s = (n \<le> length s)"
| "check_passes isEmail (Regex r m) s = regex_test r s"

datatype ZodIssue = ZodIssue (issue_path: "string list") (issue_message: string)

definition ZodString_issues ::
  "(string \<Rightarrow> bool) \<Rightarrow> string_check list \<Rightarrow> string list \<Rightarrow> string \<Rightarrow> ZodIssue list" where
  "ZodString_issues isEmail checks path s =
     map (\<lambda>c. ZodIssue path (check_message c))
       (filter (\<lambda>c. \<not> check_passes isEmail c s) checks)"

text \<open>
  \<open>ZodObject shape strip\<close> is \<open>z.object({...})\<close> over string fields: each entry of \<open>shape\<close>
  is a property name, its reader and its checks; \<open>strip\<close> drops undeclared properties.
  \<open>ZodEffects schema refinement message path\<close> is \<open>schema.refine(refinement, {message, path})\<close>.
\<close>

datatype 'a ZodType =
    ZodObject "(string \<times> ('a \<Rightarrow> string) \<times> string_check list) list" "'a \<Rightarrow> 'a"
  | ZodEffects "'a ZodType" "'a \<Rightarrow> bool" string "string list"

fun parse_value :: "'a ZodType \<Rightarrow> 'a \<Rightarrow> 'a" where
  "parse_value (ZodObject shape strip) v = strip v"
| "parse_value (ZodEffects schema refinement m p) v = parse_value schema v"

fun parse_issues :: "(string \<Rightarrow> bool) \<Rightarrow> 'a ZodType \<Rightarrow> 'a \<Rightarrow> ZodIssue list" where
  "parse_issues isEmail (ZodObject shape strip) v =
     concat (map (\<lambda>(key, read, checks). ZodString_issues isEmail checks [key] (read v)) shape)"
| "parse_issues isEmail (ZodEffects schema refinement m p) v =
     parse_issues isEmail schema v @
       (if refinement (parse_value schema v) then [] else [ZodIssue p m])"

datatype 'a SafeParseReturnType = SafeParseSuccess 'a | SafeParseError "ZodIssue list"

definition safeParse ::
  "(string \<Rightarrow> bool) \<Rightarrow> 'a ZodType \<Rightarrow> 'a \<Rightarrow> 'a SafeParseReturnType" where
  "safeParse isEmail schema v =
     (case parse_issues isEmail schema v of
        [] \<Rightarrow> SafeParseSuccess (parse_value schema v)
      | i # is \<Rightarrow> SafeParseError (i # is))"

text \<open>
  \<open>error.flatten().fieldErrors\<close>: the messages of the issues grouped under the first
  element of their path, properties in the order of their first issue.
\<close>

type_synonym fieldErrors = "(string \<times> string list) list"

fun push_fieldError :: "string \<Rightarrow> string \<Rightarrow> fieldErrors \<Rightarrow> fieldErrors" where
  "push_fieldError k m [] = [(k, [m])]"
| "push_fieldError k m ((k', ms) # rest) =
     (if k = k' then (k', ms @ [m]) # rest else (k', ms) # push_fieldError k m rest)"

definition flatten_fieldErrors :: "ZodIssue list \<Rightarrow> fieldErrors" where
  "flatten_fieldErrors issues =
     foldl (\<lambda>acc i. case issue_path i of [] \<Rightarrow> acc | k # _ \<Rightarrow> push_fieldError k (issue_message i) acc)
       [] issues"

section \<open>The schemas of \<^verbatim>\<open>auth-schema.ts\<close>\<close>

definition SignUpFormSchema :: "Credentials ZodType" where
  "SignUpFormSchema =
     ZodObject
       [(''email'', Credentials.email, [Email ''Please enter a valid email'']),
        (''password'', Credentials.password,
          [Min 8 ''Password must be at least 8 characters long'',
           Regex (CharRange CHR ''A'' CHR ''Z'')
             ''Password must contain at least one uppercase letter'',
           Regex (CharRange CHR ''a'' CHR ''z'')
             ''Password must contain at least one lowercase letter'',
           Regex DigitClass ''Password must contain at least one number'',
           Regex (CharSet ''@$!%*?&'')
             ''Password must contain at least one special character (@$!%*?&)''])]
       (\<lambda>v. v\<lparr>extra := []\<rparr>)"

definition SignInFormSchema :: "Credentials ZodType" where
  "SignInFormSchema =
     ZodObject
       [(''email'', Credentials.email, [Email ''Please enter a valid email'']),
        (''password'', Credentials.password, [Min 8 ''Be at least 8 characters long''])]
       (\<lambda>v. v\<lparr>extra := []\<rparr>)"

definition ForgotPasswordSchema :: "ForgotPasswordValues ZodType" where
  "ForgotPasswordSchema =
     ZodObject [(''email'', ForgotPasswordValues.email, [Email ''Please enter valid email''])]
       (\<lambda>v. v)"

definition ResetPasswordSchema :: "ResetPasswordValues ZodType" where
  "ResetPasswordSchema =
     ZodEffects
       (ZodObject
          [(''password'', ResetPasswordValues.password,
             [Min 8 ''Be at least 8 characters long'',
              Regex (CharRange CHR ''A'' CHR ''Z'') ''Must contain at least one uppercase letter'',
              Regex (CharRange CHR ''a'' CHR ''z'') ''Must contain at least one lowercase letter'',
              Regex DigitClass ''Must contain at least one number'',
              Regex (CharSet ''@$!%*?&'')
                ''Must contain at least one special character (@$!%*?&)'']),
           (''confirmPassword'', confirmPassword, [])]
          (\<lambda>v. v))
       (\<lambda>data. ResetPasswordValues.password data = confirmPassword data)
       ''Password don't match''
       [''confirmPassword'']"

section \<open>The identity provider client\<close>

text \<open>
  The client of the external identity provider is not part of this program. Each of its
  operations is awaited: the promise is rejected (\<^const>\<open>Throw\<close>) or resolves to a result
  whose \<open>error\<close> property is \<open>null\<close> (\<^const>\<open>None\<close>) or an error object. The OAuth
  operation also resolves \<open>data\<close> (possibly absent), the current-user operation
  \<open>data.user\<close> (a user record or \<open>null\<close>).
\<close>

datatype OAuthData = OAuthData string string

record AuthClient =
  signUp :: "Credentials \<Rightarrow> js_error option completion"
  signInWithPassword :: "Credentials \<Rightarrow> js_error option completion"
  signInWithOAuth :: "string \<Rightarrow> string \<Rightarrow> (OAuthData option \<times> js_error option) completion"
  resetPasswordForEmail :: "string \<Rightarrow> string \<Rightarrow> js_error option completion"
  updateUser :: "string \<Rightarrow> js_error option completion"
  signOut :: "js_error option completion"
  getUser :: "(User option \<times> js_error option) completion"

text \<open>
  What a handler finds around it: \<open>createClient()\<close> (it yields the client or throws),
  the variable \<open>NEXT_PUBLIC_APP_URL\<close> of the process environment (possibly unset), and
  the address grammar of the schema library.
\<close>

record Env =
  createClient :: "AuthClient completion"
  NEXT_PUBLIC_APP_URL :: "string option"
  isEmail :: "string \<Rightarrow> bool"

text \<open>
  The effects of a handler, in order: the operations it invokes on the provider, with
  their arguments, and the lines it writes with \<open>console.error\<close>.
\<close>

datatype AuthCall =
    SignUp Credentials
  | SignInWithPassword Credentials
  | SignInWithOAuth string string
  | ResetPasswordForEmail string string
  | UpdateUser string
  | SignOut
  | GetUser

datatype event = Provider AuthCall | ConsoleError string js_error

fun provider_calls :: "event list \<Rightarrow> AuthCall list" where
  "provider_calls [] = []"
| "provider_calls (Provider c # tr) = c # provider_calls tr"
| "provider_calls (ConsoleError tag e # tr) = provider_calls tr"

section \<open>Response envelopes\<close>

text \<open>
  \<open>AuthResponse\<close> and \<open>AuthSessionResponse\<close> share \<open>success\<close> and \<open>message\<close>. The optional
  property \<open>zod_errors\<close> is \<^const>\<open>None\<close> when the object literal does not set it.
\<close>

record Envelope =
  success :: bool
  message :: string

record AuthResponse = Envelope +
  zod_errors :: "fieldErrors option"

record AuthSessionResponse = Envelope +
  user :: "User option"

section \<open>The handlers\<close>

text \<open>
  A handler is \<open>try { ... } catch (error) { ... }\<close>. Its result is how the call ends,
  together with its effects. A value thrown in the \<open>try\<close> block enters the \<open>catch\<close> block;
  one thrown by the \<open>catch\<close> block would leave the handler.
\<close>

type_synonym 'a run = "'a completion \<times> event list"

definition try_catch :: "'a run \<Rightarrow> (js_error \<Rightarrow> 'a run) \<Rightarrow> 'a run" where
  "try_catch block handler =
     (case block of
        (Return r, tr) \<Rightarrow> (Return r, tr)
      | (Throw e, tr) \<Rightarrow> (case handler e of (c, tr') \<Rightarrow> (c, tr @ tr')))"

text \<open>A template literal prints an unset variable as \<open>undefined\<close>.\<close>

fun template_string :: "string option \<Rightarrow> string" where
  "template_string None = ''undefined''"
| "template_string (Some s) = s"

subsection \<open>signup\<close>

definition signup_try :: "Env \<Rightarrow> Credentials \<Rightarrow> AuthResponse run" where
  "signup_try env values =
     (case safeParse (isEmail env) SignUpFormSchema values of
        SafeParseError issues \<Rightarrow>
          (Return \<lparr>success = False, message = ''Form validation error'',
                   zod_errors = Some (flatten_fieldErrors issues)\<rparr>, [])
      | SafeParseSuccess data \<Rightarrow>
          (case createClient env of
             Throw e \<Rightarrow> (Throw e, [])
           | Return supabase \<Rightarrow>
               (case signUp supabase data of
                  Throw e \<Rightarrow> (Throw e, [Provider (SignUp data)])
                | Return (Some error) \<Rightarrow> (Throw error, [Provider (SignUp data)])
                | Return None \<Rightarrow>
                    (Return \<lparr>success = True,
                             message = ''Account creation successful. Check email to verify.'',
                             zod_errors = None\<rparr>,
                     [Provider (SignUp data)]))))"

definition signup_catch :: "js_error \<Rightarrow> AuthResponse run" where
  "signup_catch error =
     (Return \<lparr>success = False,
              message = (if instanceof_AuthError error then error_message error
                         else ''Error while sign up''),
              zod_errors = None\<rparr>,
      [ConsoleError ''[Auth] Error while sign up'' error])"

definition signup :: "Env \<Rightarrow> Credentials \<Rightarrow> AuthResponse run" where
  "signup env values = try_catch (signup_try env values) signup_catch"

subsection \<open>signin\<close>

definition signin_try :: "Env \<Rightarrow> Credentials \<Rightarrow> AuthResponse run" where
  "signin_try env values =
     (case safeParse (isEmail env) SignInFormSchema values of
        SafeParseError issues \<Rightarrow>
          (Return \<lparr>success = False, message = ''Form validation error'',
                   zod_errors = Some (flatten_fieldErrors issues)\<rparr>, [])
      | SafeParseSuccess data \<Rightarrow>
          (case createClient env of
             Throw e \<Rightarrow> (Throw e, [])
           | Return supabase \<Rightarrow>
               (case signInWithPassword supabase values of
                  Throw e \<Rightarrow> (Throw e, [Provider (SignInWithPassword values)])
                | Return (Some error) \<Rightarrow> (Throw error, [Provider (SignInWithPassword values)])
                | Return None \<Rightarrow>
                    (Return \<lparr>success = True, message = ''Sign in successful'',
                             zod_errors = None\<rparr>,
                     [Provider (SignInWithPassword values)]))))"

definition signin_catch :: "js_error \<Rightarrow> AuthResponse run" where
  "signin_catch error =
     (Return \<lparr>success = False,
              message = (if instanceof_AuthError error then error_message error
                         else ''Sign in failed''),
              zod_errors = None\<rparr>,
      [ConsoleError ''[Auth] Sign in failed'' error])"

definition signin :: "Env \<Rightarrow> Credentials \<Rightarrow> AuthResponse run" where
  "signin env values = try_catch (signin_try env values) signin_catch"

subsection \<open>signOAuth\<close>

definition signOAuth_try :: "Env \<Rightarrow> string \<Rightarrow> AuthResponse run" where
  "signOAuth_try env provider =
     (case createClient env of
        Throw e \<Rightarrow> (Throw e, [])
      | Return supabase \<Rightarrow>
          (case signInWithOAuth supabase provider '''' of
             Throw e \<Rightarrow> (Throw e, [Provider (SignInWithOAuth provider '''')])
           | Return (data, Some error) \<Rightarrow> (Throw error, [Provider (SignInWithOAuth provider '''')])
           | Return (None, None) \<Rightarrow>
               (Return \<lparr>success = False, message = ''Failed to initiate OAuth signin'',
                        zod_errors = None\<rparr>,
                [Provider (SignInWithOAuth provider '''')])
           | Return (Some d, None) \<Rightarrow>
               (Return \<lparr>success = True, message = ''OAuth signin successful'',
                        zod_errors = None\<rparr>,
                [Provider (SignInWithOAuth provider '''')])))"

definition signOAuth_catch :: "js_error \<Rightarrow> AuthResponse run" where
  "signOAuth_catch error =
     (Return \<lparr>success = False,
              message = (if instanceof_AuthError error then error_message error
                         else ''OAuth signin error''),
              zod_errors = None\<rparr>,
      [ConsoleError ''[Auth] OAuth signin error'' error])"

definition signOAuth :: "Env \<Rightarrow> string \<Rightarrow> AuthResponse run" where
  "signOAuth env provider = try_catch (signOAuth_try env provider) signOAuth_catch"

subsection \<open>forgotPassword\<close>

definition forgotPassword_try :: "Env \<Rightarrow> ForgotPasswordValues \<Rightarrow> AuthResponse run" where
  "forgotPassword_try env email' =
     (case createClient env of
        Throw e \<Rightarrow> (Throw e, [])
      | Return supabase \<Rightarrow>
          (let redirectTo = template_string (NEXT_PUBLIC_APP_URL env) @ ''/reset-password'';
               call = Provider (ResetPasswordForEmail (ForgotPasswordValues.email email') redirectTo)
           in case resetPasswordForEmail supabase (ForgotPasswordValues.email email') redirectTo of
                Throw e \<Rightarrow> (Throw e, [call])
              | Return (Some error) \<Rightarrow> (Throw error, [call])
              | Return None \<Rightarrow>
                  (Return \<lparr>success = True, message = ''Reset link sent. Please check.'',
                           zod_errors = None\<rparr>,
                   [call])))"

definition forgotPassword_catch :: "js_error \<Rightarrow> AuthResponse run" where
  "forgotPassword_catch error =
     (Return \<lparr>success = False,
              message = (if instanceof_AuthError error then error_message error
                         else ''Error occured while sending reset password link''),
              zod_errors = None\<rparr>,
      [ConsoleError ''[Auth] Error occured while sending reset password link'' error])"

definition forgotPassword :: "Env \<Rightarrow> ForgotPasswordValues \<Rightarrow> AuthResponse run" where
  "forgotPassword env email' = try_catch (forgotPassword_try env email') forgotPassword_catch"

subsection \<open>resetPassword\<close>

definition resetPassword_try :: "Env \<Rightarrow> ResetPasswordValues \<Rightarrow> AuthResponse run" where
  "resetPassword_try env newPassword =
     (case createClient env of
        Throw e \<Rightarrow> (Throw e, [])
      | Return supabase \<Rightarrow>
          (let call = Provider (UpdateUser (ResetPasswordValues.password newPassword))
           in case updateUser supabase (ResetPasswordValues.password newPassword) of
                Throw e \<Rightarrow> (Throw e, [call])
              | Return (Some error) \<Rightarrow> (Throw error, [call])
              | Return None \<Rightarrow>
                  (Return \<lparr>success = True,
                           message = ''Password reset successful. Please Sign in.'',
                           zod_errors = None\<rparr>,
                   [call])))"

definition resetPassword_catch :: "js_error \<Rightarrow> AuthResponse run" where
  "resetPassword_catch error =
     (Return \<lparr>success = False,
              message = (if instanceof_AuthError error then error_message error
                         else ''Error while updating password''),
              zod_errors = None\<rparr>,
      [ConsoleError ''[Auth] Error while updating password'' error])"

definition resetPassword :: "Env \<Rightarrow> ResetPasswordValues \<Rightarrow> AuthResponse run" where
  "resetPassword env newPassword =
     try_catch (resetPassword_try env newPassword) resetPassword_catch"

subsection \<open>signout\<close>

definition signout_try :: "Env \<Rightarrow> AuthResponse run" where
  "signout_try env =
     (case createClient env of
        Throw e \<Rightarrow> (Throw e, [])
      | Return supabase \<Rightarrow>
          (case signOut supabase of
             Throw e \<Rightarrow> (Throw e, [Provider SignOut])
           | Return (Some error) \<Rightarrow> (Throw error, [Provider SignOut])
           | Return None \<Rightarrow>
               (Return \<lparr>success = True, message = ''Sign out successful'',
                        zod_errors = None\<rparr>,
                [Provider SignOut])))"

definition signout_catch :: "js_error \<Rightarrow> AuthResponse run" where
  "signout_catch error =
     (Return \<lparr>success = False,
              message = (if instanceof_AuthError error then error_message error
                         else ''Error occured while sign out''),
              zod_errors = None\<rparr>,
      [ConsoleError ''[Auth] Error occured while sign out'' error])"

definition signout :: "Env \<Rightarrow> AuthResponse run" where
  "signout env = try_catch (signout_try env) signout_catch"

subsection \<open>getSession\<close>

definition getSession_try :: "Env \<Rightarrow> AuthSessionResponse run" where
  "getSession_try env =
     (case createClient env of
        Throw e \<Rightarrow> (Throw e, [])
      | Return supabase \<Rightarrow>
          (case getUser supabase of
             Throw e \<Rightarrow> (Throw e, [Provider GetUser])
           | Return (u, Some error) \<Rightarrow> (Throw error, [Provider GetUser])
           | Return (u, None) \<Rightarrow>
               (Return \<lparr>success = True, message = ''Fetching user sesssion successful'',
                        user = u\<rparr>,
                [Provider GetUser])))"

definition getSession_catch :: "js_error \<Rightarrow> AuthSessionResponse run" where
  "getSession_catch error =
     (Return \<lparr>success = False,
              message = (if instanceof_AuthError error then error_message error
                         else ''Error fetching session''),
              user = None\<rparr>,
      [ConsoleError ''[Auth] Error fetching session'' error])"

definition getSession :: "Env \<Rightarrow> AuthSessionResponse run" where
  "getSession env = try_catch (getSession_try env) getSession_catch"

section \<open>Sample environments\<close>

text \<open>
  Concrete surroundings on which the handlers are evaluated below: an address test that
  only asks for an \<open>@\<close>, a provider that accepts every request, one whose every operation
  resolves with a given error, and one whose every operation throws a given value.
\<close>

definition sample_isEmail :: "string \<Rightarrow> bool" where
  "sample_isEmail s = (CHR ''@'' \<in> set s)"

definition accepting_client :: AuthClient where
  "accepting_client =
     \<lparr>signUp = (\<lambda>c. Return None),
      signInWithPassword = (\<lambda>c. Return None),
      signInWithOAuth = (\<lambda>p r. Return (Some (OAuthData p ''https://idp.example/authorize''), None)),
      resetPasswordForEmail = (\<lambda>e r. Return None),
      updateUser = (\<lambda>p. Return None),
      signOut = Return None,
      getUser = Return (None, None)\<rparr>"

definition failing_client :: "js_error \<Rightarrow> AuthClient" where
  "failing_client e =
     \<lparr>signUp = (\<lambda>c. Return (Some e)),
      signInWithPassword = (\<lambda>c. Return (Some e)),
      signInWithOAuth = (\<lambda>p r. Return (None, Some e)),
      resetPasswordForEmail = (\<lambda>e' r. Return (Some e)),
      updateUser = (\<lambda>p. Return (Some e)),
      signOut = Return (Some e),
      getUser = Return (None, Some e)\<rparr>"

definition throwing_client :: "js_error \<Rightarrow> AuthClient" where
  "throwing_client e =
     \<lparr>signUp = (\<lambda>c. Throw e),
      signInWithPassword = (\<lambda>c. Throw e),
      signInWithOAuth = (\<lambda>p r. Throw e),
      resetPasswordForEmail = (\<lambda>e' r. Throw e),
      updateUser = (\<lambda>p. Throw e),
      signOut = Throw e,
      getUser = Throw e\<rparr>"

definition sample_env :: "AuthClient \<Rightarrow> Env" where
  "sample_env client =
     \<lparr>createClient = Return client,
      NEXT_PUBLIC_APP_URL = Some ''http://localhost:3000'',
      isEmail = sample_isEmail\<rparr>"

section \<open>The password rules as the specification words them\<close>

text \<open>
  The specification asks of a sign-up or reset password: minimum 8 characters; at least
  one uppercase letter; at least one lowercase letter; at least one digit; at least one
  character from the set \<open>@$!%*?&\<close>. The definitions below follow these words, to be
  compared with the checks of the schemas.
\<close>

definition uppercase_letters :: string where
  "uppercase_letters = ''ABCDEFGHIJKLMNOPQRSTUVWXYZ''"

definition lowercase_letters :: string where
  "lowercase_letters = ''abcdefghijklmnopqrstuvwxyz''"

definition digits :: string where
  "digits = ''0123456789''"

definition special_characters :: string where
  "special_characters = ''@$!%*?&''"

definition password_rules :: "string \<Rightarrow> bool" where
  "password_rules p \<longleftrightarrow>
     8 \<le> length p
     \<and> (\<exists>c \<in> set p. c \<in> set uppercase_letters)
     \<and> (\<exists>c \<in> set p. c \<in> set lowercase_letters)
     \<and> (\<exists>c \<in> set p. c \<in> set digits)
     \<and> (\<exists>c \<in> set p. c \<in> set special_characters)"

text \<open>
  The checks that \<open>ResetPasswordSchema\<close> declares for its \<open>password\<close> field, under a name
  of their own for the proofs.
\<close>

definition ResetPassword_password_checks :: "string_check list" where
  "ResetPassword_password_checks =
     [Min 8 ''Be at least 8 characters long'',
      Regex (CharRange CHR ''A'' CHR ''Z'') ''Must contain at least one uppercase letter'',
      Regex (CharRange CHR ''a'' CHR ''z'') ''Must contain at least one lowercase letter'',
      Regex DigitClass ''Must contain at least one number'',
      Regex (CharSet ''@$!%*?&'') ''Must contain at least one special character (@$!%*?&)'']"

section \<open>How \<open>try\<close>/\<open>catch\<close> ends\<close>

lemma try_catch_Return: "fst block = Return r \<Longrightarrow> try_catch block handler = block"
  by (cases block) (simp add: try_catch_def)

lemma try_catch_Throw:
  "fst block = Throw e \<Longrightarrow>
   try_catch block handler = (fst (handler e), snd block @ snd (handler e))"
  by (cases block) (simp add: try_catch_def split: prod.splits)

lemma try_catch_returns:
  assumes "\<And>e. \<exists>r. fst (handler e) = Return r"
  shows "\<exists>r. fst (try_catch block handler) = Return r"
proof (cases "fst block")
  case (Return r)
  then show ?thesis by (simp add: try_catch_Return)
next
  case (Throw e)
  with assms [of e] show ?thesis by (simp add: try_catch_Throw)
qed

lemmas catch_defs =
  signup_catch_def signin_catch_def signOAuth_catch_def forgotPassword_catch_def
  resetPassword_catch_def signout_catch_def getSession_catch_def

section \<open>Session retrieval\<close>

text \<open>
  C7. When \<open>getSession\<close> is called, the provider reports no error and there is no
  authenticated user (the provider returns a null user), the handler returns an envelope
  with \<open>success: true\<close> and \<open>user: null\<close>.
\<close>

theorem getSession_no_user:
  assumes "createClient env = Return supabase"
    and "getUser supabase = Return (None, None)"
  shows "fst (getSession env) =
           Return \<lparr>success = True, message = ''Fetching user sesssion successful'', user = None\<rparr>"
  using assms by (simp add: getSession_def getSession_try_def try_catch_def)

theorem getSession_no_user_witness:
  "createClient (sample_env accepting_client) = Return accepting_client
   \<and> getUser accepting_client = Return (None, None)
   \<and> fst (getSession (sample_env accepting_client)) =
         Return \<lparr>success = True, message = ''Fetching user sesssion successful'', user = None\<rparr>"
proof -
  have c: "createClient (sample_env accepting_client) = Return accepting_client"
    by (simp add: sample_env_def)
  have u: "getUser accepting_client = Return (None, None)"
    by (simp add: accepting_client_def)
  from getSession_no_user [OF c u] c u show ?thesis by simp
qed

text \<open>
  C8. Every envelope returned by \<open>getSession\<close> with \<open>success: false\<close> has \<open>user\<close> equal to
  \<open>null\<close>: \<open>getSession\<close> never returns a failure envelope carrying a user record.
\<close>

theorem getSession_failure_has_no_user:
  assumes "fst (getSession env) = Return r" and "\<not> success r"
  shows "user r = None"
proof (cases "fst (getSession_try env)")
  case (Return r')
  then have "fst (getSession env) = Return r'"
    by (simp add: getSession_def try_catch_Return)
  moreover from Return have "success r'"
    by (auto simp: getSession_try_def split: completion.splits option.splits prod.splits)
  ultimately show ?thesis using assms by simp
next
  case (Throw e)
  then have "fst (getSession env) = fst (getSession_catch e)"
    by (simp add: getSession_def try_catch_Throw)
  with assms show ?thesis by (auto simp: getSession_catch_def)
qed

theorem getSession_failure_has_no_user_witness:
  "fst (getSession (sample_env (failing_client (AuthError ''Auth session missing!''))))
     = Return \<lparr>success = False, message = ''Auth session missing!'', user = None\<rparr>
   \<and> \<not> success \<lparr>success = False, message = ''Auth session missing!'', user = None\<rparr>
   \<and> user \<lparr>success = False, message = ''Auth session missing!'', user = None\<rparr> = None"
proof -
  have r: "fst (getSession (sample_env (failing_client (AuthError ''Auth session missing!''))))
     = Return \<lparr>success = False, message = ''Auth session missing!'', user = None\<rparr>"
    by (simp add: getSession_def getSession_try_def getSession_catch_def try_catch_def
        sample_env_def failing_client_def)
  have f: "\<not> success \<lparr>success = False, message = ''Auth session missing!'', user = None\<rparr>"
    by simp
  from getSession_failure_has_no_user [OF r f] r f show ?thesis by simp
qed

section \<open>No exception leaves a handler\<close>

text \<open>
  C5. For every handler and every input, including when the provider call throws an
  arbitrary (non-auth) exception, the handler never propagates an exception to its
  caller: every execution ends by returning a response envelope (success flag plus
  message), and a fault of the \<open>try\<close> block is caught and demoted to a failure-shaped
  envelope.
\<close>

theorem handlers_never_throw:
  "(\<exists>r. fst (signup env values) = Return r
        \<and> (\<forall>e. fst (signup_try env values) = Throw e \<longrightarrow> \<not> success r))
   \<and> (\<exists>r. fst (signin env values) = Return r
        \<and> (\<forall>e. fst (signin_try env values) = Throw e \<longrightarrow> \<not> success r))
   \<and> (\<exists>r. fst (signOAuth env provider) = Return r
        \<and> (\<forall>e. fst (signOAuth_try env provider) = Throw e \<longrightarrow> \<not> success r))
   \<and> (\<exists>r. fst (forgotPassword env email') = Return r
        \<and> (\<forall>e. fst (forgotPassword_try env email') = Throw e \<longrightarrow> \<not> success r))
   \<and> (\<exists>r. fst (resetPassword env newPassword) = Return r
        \<and> (\<forall>e. fst (resetPassword_try env newPassword) = Throw e \<longrightarrow> \<not> success r))
   \<and> (\<exists>r. fst (signout env) = Return r
        \<and> (\<forall>e. fst (signout_try env) = Throw e \<longrightarrow> \<not> success r))
   \<and> (\<exists>r. fst (getSession env) = Return r
        \<and> (\<forall>e. fst (getSession_try env) = Throw e \<longrightarrow> \<not> success r))"
proof -
  have *: "\<exists>r. fst (try_catch block handler) = Return r
             \<and> (\<forall>e. fst block = Throw e \<longrightarrow> \<not> success r)"
    if "\<And>e. \<exists>r. fst (handler e) = Return r \<and> \<not> success r"
    for block :: "('a Envelope_scheme) run" and handler
  proof (cases "fst block")
    case (Return r)
    then show ?thesis by (simp add: try_catch_Return)
  next
    case (Throw e)
    with that [of e] show ?thesis by (auto simp: try_catch_Throw)
  qed
  show ?thesis
    unfolding signup_def signin_def signOAuth_def forgotPassword_def resetPassword_def
      signout_def getSession_def
    by (intro conjI *) (simp_all add: catch_defs)
qed

theorem handlers_never_throw_witness:
  "fst (signup_try (sample_env (throwing_client (OtherError ''fetch failed'')))
         \<lparr>Credentials.email = ''a@b.com'', password = ''Abcdef1!'', extra = []\<rparr>)
     = Throw (OtherError ''fetch failed'')
   \<and> (\<exists>r. fst (signup (sample_env (throwing_client (OtherError ''fetch failed'')))
                 \<lparr>Credentials.email = ''a@b.com'', password = ''Abcdef1!'', extra = []\<rparr>)
              = Return r \<and> \<not> success r)
   \<and> fst (signin_try (sample_env (throwing_client (OtherError ''fetch failed'')))
         \<lparr>Credentials.email = ''a@b.com'', password = ''Abcdef1!'', extra = []\<rparr>)
     = Throw (OtherError ''fetch failed'')
   \<and> (\<exists>r. fst (signin (sample_env (throwing_client (OtherError ''fetch failed'')))
                 \<lparr>Credentials.email = ''a@b.com'', password = ''Abcdef1!'', extra = []\<rparr>)
              = Return r \<and> \<not> success r)
   \<and> fst (signOAuth_try (sample_env (throwing_client (OtherError ''fetch failed''))) ''github'')
     = Throw (OtherError ''fetch failed'')
   \<and> (\<exists>r. fst (signOAuth (sample_env (throwing_client (OtherError ''fetch failed''))) ''github'')
              = Return r \<and> \<not> success r)
   \<and> fst (forgotPassword_try (sample_env (throwing_client (OtherError ''fetch failed'')))
         \<lparr>ForgotPasswordValues.email = ''a@b.com''\<rparr>)
     = Throw (OtherError ''fetch failed'')
   \<and> (\<exists>r. fst (forgotPassword (sample_env (throwing_client (OtherError ''fetch failed'')))
                 \<lparr>ForgotPasswordValues.email = ''a@b.com''\<rparr>)
              = Return r \<and> \<not> success r)
   \<and> fst (resetPassword_try (sample_env (throwing_client (OtherError ''fetch failed'')))
         \<lparr>ResetPasswordValues.password = ''Abcdef1!'', confirmPassword = ''Abcdef1!''\<rparr>)
     = Throw (OtherError ''fetch failed'')
   \<and> (\<exists>r. fst (resetPassword (sample_env (throwing_client (OtherError ''fetch failed'')))
                 \<lparr>ResetPasswordValues.password = ''Abcdef1!'', confirmPassword = ''Abcdef1!''\<rparr>)
              = Return r \<and> \<not> success r)
   \<and> fst (signout_try (sample_env (throwing_client (OtherError ''fetch failed''))))
     = Throw (OtherError ''fetch failed'')
   \<and> (\<exists>r. fst (signout (sample_env (throwing_client (OtherError ''fetch failed''))))
              = Return r \<and> \<not> success r)
   \<and> fst (getSession_try (sample_env (throwing_client (OtherError ''fetch failed''))))
     = Throw (OtherError ''fetch failed'')
   \<and> (\<exists>r. fst (getSession (sample_env (throwing_client (OtherError ''fetch failed''))))
              = Return r \<and> \<not> success r)"
proof -
  let ?E = "sample_env (throwing_client (OtherError ''fetch failed''))"
  let ?V = "\<lparr>Credentials.email = ''a@b.com'', password = ''Abcdef1!'', extra = []\<rparr>"
  let ?F = "\<lparr>ForgotPasswordValues.email = ''a@b.com''\<rparr>"
  let ?N = "\<lparr>ResetPasswordValues.password = ''Abcdef1!'', confirmPassword = ''Abcdef1!''\<rparr>"
  have a: "fst (signup_try ?E ?V) = Throw (OtherError ''fetch failed'')"
    by (simp add: signup_try_def safeParse_def SignUpFormSchema_def ZodString_issues_def
        regex_test_def sample_env_def sample_isEmail_def throwing_client_def)
  have b: "fst (signin_try ?E ?V) = Throw (OtherError ''fetch failed'')"
    by (simp add: signin_try_def safeParse_def SignInFormSchema_def ZodString_issues_def
        sample_env_def sample_isEmail_def throwing_client_def)
  have c: "fst (signOAuth_try ?E ''github'') = Throw (OtherError ''fetch failed'')"
    by (simp add: signOAuth_try_def sample_env_def throwing_client_def)
  have d: "fst (forgotPassword_try ?E ?F) = Throw (OtherError ''fetch failed'')"
    by (simp add: forgotPassword_try_def sample_env_def throwing_client_def)
  have e: "fst (resetPassword_try ?E ?N) = Throw (OtherError ''fetch failed'')"
    by (simp add: resetPassword_try_def sample_env_def throwing_client_def)
  have f: "fst (signout_try ?E) = Throw (OtherError ''fetch failed'')"
    by (simp add: signout_try_def sample_env_def throwing_client_def)
  have g: "fst (getSession_try ?E) = Throw (OtherError ''fetch failed'')"
    by (simp add: getSession_try_def sample_env_def throwing_client_def)
  note t = handlers_never_throw [of ?E ?V "''github''" ?F ?N]
  from t a have a': "\<exists>r. fst (signup ?E ?V) = Return r \<and> \<not> success r"
    by blast
  from t b have b': "\<exists>r. fst (signin ?E ?V) = Return r \<and> \<not> success r"
    by blast
  from t c have c': "\<exists>r. fst (signOAuth ?E ''github'') = Return r \<and> \<not> success r"
    by blast
  from t d have d': "\<exists>r. fst (forgotPassword ?E ?F) = Return r \<and> \<not> success r"
    by blast
  from t e have e': "\<exists>r. fst (resetPassword ?E ?N) = Return r \<and> \<not> success r"
    by blast
  from t f have f': "\<exists>r. fst (signout ?E) = Return r \<and> \<not> success r"
    by blast
  from t g have g': "\<exists>r. fst (getSession ?E) = Return r \<and> \<not> success r"
    by blast
  show ?thesis by (intro conjI a a' b b' c c' d d' e e' f f' g g')
qed

section \<open>Provider failures\<close>

text \<open>
  C4. For every handler, when the provider call fails (the awaited call throws \<open>e\<close>, or
  resolves with \<open>e\<close> as its error), the returned envelope has \<open>success: false\<close> and its
  message is the provider's own error message if the error is a recognized auth error
  (\<open>instanceof AuthError\<close>), and otherwise a fixed handler-specific fallback string. In
  particular a recognized identity error with message \<open>Invalid login credentials\<close> yields
  \<open>{success: false, message: "Invalid login credentials"}\<close>.
\<close>

theorem provider_failure_envelope:
  assumes "createClient env = Return supabase"
  shows
  "(safeParse (isEmail env) SignUpFormSchema values = SafeParseSuccess data \<longrightarrow>
      (signUp supabase data = Throw e \<or> signUp supabase data = Return (Some e)) \<longrightarrow>
      fst (signup env values) =
        Return \<lparr>success = False,
                 message = (case e of AuthError m \<Rightarrow> m | OtherError m \<Rightarrow> ''Error while sign up''),
                 zod_errors = None\<rparr>)
   \<and> (safeParse (isEmail env) SignInFormSchema values' = SafeParseSuccess data' \<longrightarrow>
      (signInWithPassword supabase values' = Throw e
         \<or> signInWithPassword supabase values' = Return (Some e)) \<longrightarrow>
      fst (signin env values') =
        Return \<lparr>success = False,
                 message = (case e of AuthError m \<Rightarrow> m | OtherError m \<Rightarrow> ''Sign in failed''),
                 zod_errors = None\<rparr>)
   \<and> ((signInWithOAuth supabase provider '''' = Throw e
         \<or> (\<exists>d. signInWithOAuth supabase provider '''' = Return (d, Some e))) \<longrightarrow>
      fst (signOAuth env provider) =
        Return \<lparr>success = False,
                 message = (case e of AuthError m \<Rightarrow> m | OtherError m \<Rightarrow> ''OAuth signin error''),
                 zod_errors = None\<rparr>)
   \<and> ((resetPasswordForEmail supabase (ForgotPasswordValues.email email')
          (template_string (NEXT_PUBLIC_APP_URL env) @ ''/reset-password'') = Throw e
         \<or> resetPasswordForEmail supabase (ForgotPasswordValues.email email')
          (template_string (NEXT_PUBLIC_APP_URL env) @ ''/reset-password'') = Return (Some e)) \<longrightarrow>
      fst (forgotPassword env email') =
        Return \<lparr>success = False,
                 message = (case e of AuthError m \<Rightarrow> m
                            | OtherError m \<Rightarrow> ''Error occured while sending reset password link''),
                 zod_errors = None\<rparr>)
   \<and> ((updateUser supabase (ResetPasswordValues.password newPassword) = Throw e
         \<or> updateUser supabase (ResetPasswordValues.password newPassword) = Return (Some e)) \<longrightarrow>
      fst (resetPassword env newPassword) =
        Return \<lparr>success = False,
                 message = (case e of AuthError m \<Rightarrow> m
                            | OtherError m \<Rightarrow> ''Error while updating password''),
                 zod_errors = None\<rparr>)
   \<and> ((signOut supabase = Throw e \<or> signOut supabase = Return (Some e)) \<longrightarrow>
      fst (signout env) =
        Return \<lparr>success = False,
                 message = (case e of AuthError m \<Rightarrow> m
                            | OtherError m \<Rightarrow> ''Error occured while sign out''),
                 zod_errors = None\<rparr>)
   \<and> ((getUser supabase = Throw e \<or> (\<exists>u. getUser supabase = Return (u, Some e))) \<longrightarrow>
      fst (getSession env) =
        Return \<lparr>success = False,
                 message = (case e of AuthError m \<Rightarrow> m | OtherError m \<Rightarrow> ''Error fetching session''),
                 user = None\<rparr>)
   \<and> (safeParse (isEmail env) SignInFormSchema values' = SafeParseSuccess data' \<longrightarrow>
      (signInWithPassword supabase values' = Throw (AuthError ''Invalid login credentials'')
         \<or> signInWithPassword supabase values'
              = Return (Some (AuthError ''Invalid login credentials''))) \<longrightarrow>
      fst (signin env values') =
        Return \<lparr>success = False, message = ''Invalid login credentials'', zod_errors = None\<rparr>)"
proof (intro conjI impI)
  assume "safeParse (isEmail env) SignUpFormSchema values = SafeParseSuccess data"
    and "signUp supabase data = Throw e \<or> signUp supabase data = Return (Some e)"
  with assms show "fst (signup env values) =
        Return \<lparr>success = False,
                 message = (case e of AuthError m \<Rightarrow> m | OtherError m \<Rightarrow> ''Error while sign up''),
                 zod_errors = None\<rparr>"
    by (cases e) (auto simp: signup_def signup_try_def signup_catch_def try_catch_def)
next
  assume "safeParse (isEmail env) SignInFormSchema values' = SafeParseSuccess data'"
    and "signInWithPassword supabase values' = Throw e
         \<or> signInWithPassword supabase values' = Return (Some e)"
  with assms show "fst (signin env values') =
        Return \<lparr>success = False,
                 message = (case e of AuthError m \<Rightarrow> m | OtherError m \<Rightarrow> ''Sign in failed''),
                 zod_errors = None\<rparr>"
    by (cases e) (auto simp: signin_def signin_try_def signin_catch_def try_catch_def)
next
  assume "signInWithOAuth supabase provider '''' = Throw e
         \<or> (\<exists>d. signInWithOAuth supabase provider '''' = Return (d, Some e))"
  with assms show "fst (signOAuth env provider) =
        Return \<lparr>success = False,
                 message = (case e of AuthError m \<Rightarrow> m | OtherError m \<Rightarrow> ''OAuth signin error''),
                 zod_errors = None\<rparr>"
    by (cases e)
      (auto simp: signOAuth_def signOAuth_try_def signOAuth_catch_def try_catch_def
        split: option.splits)
next
  assume "resetPasswordForEmail supabase (ForgotPasswordValues.email email')
          (template_string (NEXT_PUBLIC_APP_URL env) @ ''/reset-password'') = Throw e
         \<or> resetPasswordForEmail supabase (ForgotPasswordValues.email email')
          (template_string (NEXT_PUBLIC_APP_URL env) @ ''/reset-password'') = Return (Some e)"
  with assms show "fst (forgotPassword env email') =
        Return \<lparr>success = False,
                 message = (case e of AuthError m \<Rightarrow> m
                            | OtherError m \<Rightarrow> ''Error occured while sending reset password link''),
                 zod_errors = None\<rparr>"
    by (cases e)
      (auto simp: forgotPassword_def forgotPassword_try_def forgotPassword_catch_def
        try_catch_def Let_def)
next
  assume "updateUser supabase (ResetPasswordValues.password newPassword) = Throw e
         \<or> updateUser supabase (ResetPasswordValues.password newPassword) = Return (Some e)"
  with assms show "fst (resetPassword env newPassword) =
        Return \<lparr>success = False,
                 message = (case e of AuthError m \<Rightarrow> m
                            | OtherError m \<Rightarrow> ''Error while updating password''),
                 zod_errors = None\<rparr>"
    by (cases e)
      (auto simp: resetPassword_def resetPassword_try_def resetPassword_catch_def
        try_catch_def Let_def)
next
  assume "signOut supabase = Throw e \<or> signOut supabase = Return (Some e)"
  with assms show "fst (signout env) =
        Return \<lparr>success = False,
                 message = (case e of AuthError m \<Rightarrow> m
                            | OtherError m \<Rightarrow> ''Error occured while sign out''),
                 zod_errors = None\<rparr>"
    by (cases e) (auto simp: signout_def signout_try_def signout_catch_def try_catch_def)
next
  assume "getUser supabase = Throw e \<or> (\<exists>u. getUser supabase = Return (u, Some e))"
  with assms show "fst (getSession env) =
        Return \<lparr>success = False,
                 message = (case e of AuthError m \<Rightarrow> m | OtherError m \<Rightarrow> ''Error fetching session''),
                 user = None\<rparr>"
    by (cases e) (auto simp: getSession_def getSession_try_def getSession_catch_def try_catch_def)
next
  assume "safeParse (isEmail env) SignInFormSchema values' = SafeParseSuccess data'"
    and "signInWithPassword supabase values' = Throw (AuthError ''Invalid login credentials'')
         \<or> signInWithPassword supabase values'
              = Return (Some (AuthError ''Invalid login credentials''))"
  with assms show "fst (signin env values') =
        Return \<lparr>success = False, message = ''Invalid login credentials'', zod_errors = None\<rparr>"
    by (auto simp: signin_def signin_try_def signin_catch_def try_catch_def)
qed

theorem provider_failure_envelope_witness:
  "fst (signup (sample_env (failing_client (AuthError ''Invalid login credentials'')))
         \<lparr>Credentials.email = ''a@b.com'', password = ''Abcdef1!'', extra = []\<rparr>)
     = Return \<lparr>success = False, message = ''Invalid login credentials'', zod_errors = None\<rparr>
   \<and> fst (signin (sample_env (failing_client (AuthError ''Invalid login credentials'')))
         \<lparr>Credentials.email = ''a@b.com'', password = ''Abcdef1!'', extra = []\<rparr>)
     = Return \<lparr>success = False, message = ''Invalid login credentials'', zod_errors = None\<rparr>
   \<and> fst (signOAuth (sample_env (failing_client (AuthError ''Invalid login credentials''))) ''github'')
     = Return \<lparr>success = False, message = ''Invalid login credentials'', zod_errors = None\<rparr>
   \<and> fst (forgotPassword (sample_env (failing_client (AuthError ''Invalid login credentials'')))
         \<lparr>ForgotPasswordValues.email = ''a@b.com''\<rparr>)
     = Return \<lparr>success = False, message = ''Invalid login credentials'', zod_errors = None\<rparr>
   \<and> fst (resetPassword (sample_env (failing_client (AuthError ''Invalid login credentials'')))
         \<lparr>ResetPasswordValues.password = ''Abcdef1!'', confirmPassword = ''Abcdef1!''\<rparr>)
     = Return \<lparr>success = False, message = ''Invalid login credentials'', zod_errors = None\<rparr>
   \<and> fst (signout (sample_env (failing_client (AuthError ''Invalid login credentials''))))
     = Return \<lparr>success = False, message = ''Invalid login credentials'', zod_errors = None\<rparr>
   \<and> fst (getSession (sample_env (failing_client (AuthError ''Invalid login credentials''))))
     = Return \<lparr>success = False, message = ''Invalid login credentials'', user = None\<rparr>"
proof -
  let ?e = "AuthError ''Invalid login credentials''"
  let ?C = "failing_client ?e"
  let ?E = "sample_env ?C"
  let ?V = "\<lparr>Credentials.email = ''a@b.com'', password = ''Abcdef1!'', extra = []\<rparr>"
  have c: "createClient ?E = Return ?C"
    by (simp add: sample_env_def)
  have up: "safeParse (isEmail ?E) SignUpFormSchema ?V = SafeParseSuccess ?V"
    by (simp add: safeParse_def SignUpFormSchema_def ZodString_issues_def regex_test_def
        sample_env_def sample_isEmail_def)
  have inn: "safeParse (isEmail ?E) SignInFormSchema ?V = SafeParseSuccess ?V"
    by (simp add: safeParse_def SignInFormSchema_def ZodString_issues_def
        sample_env_def sample_isEmail_def)
  have ops: "signUp ?C ?V = Return (Some ?e)" "signInWithPassword ?C ?V = Return (Some ?e)"
    "signInWithOAuth ?C ''github'' '''' = Return (None, Some ?e)"
    "resetPasswordForEmail ?C ''a@b.com''
       (template_string (NEXT_PUBLIC_APP_URL ?E) @ ''/reset-password'') = Return (Some ?e)"
    "updateUser ?C ''Abcdef1!'' = Return (Some ?e)"
    "signOut ?C = Return (Some ?e)" "getUser ?C = Return (None, Some ?e)"
    by (simp_all add: failing_client_def)
  from provider_failure_envelope [OF c, of ?V ?V ?e ?V ?V "''github''"
      "\<lparr>ForgotPasswordValues.email = ''a@b.com''\<rparr>"
      "\<lparr>ResetPasswordValues.password = ''Abcdef1!'', confirmPassword = ''Abcdef1!''\<rparr>"]
    up inn ops
  show ?thesis by simp
qed

section \<open>Validation failures of \<open>signup\<close> and \<open>signin\<close>\<close>

lemma signup_validation_failure:
  assumes "safeParse (isEmail env) SignUpFormSchema values = SafeParseError issues"
  shows "signup env values =
           (Return \<lparr>success = False, message = ''Form validation error'',
                    zod_errors = Some (flatten_fieldErrors issues)\<rparr>, [])"
  using assms by (simp add: signup_def signup_try_def try_catch_def)

lemma signin_validation_failure:
  assumes "safeParse (isEmail env) SignInFormSchema values = SafeParseError issues"
  shows "signin env values =
           (Return \<lparr>success = False, message = ''Form validation error'',
                    zod_errors = Some (flatten_fieldErrors issues)\<rparr>, [])"
  using assms by (simp add: signin_def signin_try_def try_catch_def)

lemma signup_validated:
  assumes "safeParse (isEmail env) SignUpFormSchema values = SafeParseSuccess data"
    and "fst (signup env values) = Return r"
  shows "zod_errors r = None"
    and "fst (signup_try env values) = Throw e \<Longrightarrow> \<not> success r"
  using assms
  by (auto simp: signup_def signup_try_def signup_catch_def try_catch_def
      split: completion.splits option.splits)

lemma signin_validated:
  assumes "safeParse (isEmail env) SignInFormSchema values = SafeParseSuccess data"
    and "fst (signin env values) = Return r"
  shows "zod_errors r = None"
    and "fst (signin_try env values) = Throw e \<Longrightarrow> \<not> success r"
  using assms
  by (auto simp: signin_def signin_try_def signin_catch_def try_catch_def
      split: completion.splits option.splits)

text \<open>
  C9. For \<open>signup\<close> and \<open>signin\<close>, the \<open>zod_errors\<close> field is present in the returned envelope
  exactly when schema validation failed; every envelope with \<open>success: true\<close>, and every
  provider-failure envelope (one built after the \<open>try\<close> block threw), omits \<open>zod_errors\<close>,
  and every envelope carrying \<open>zod_errors\<close> has \<open>success: false\<close> with message
  \<open>Form validation error\<close>.
\<close>

theorem zod_errors_iff_validation_failed:
  "(fst (signup env values) = Return r \<longrightarrow>
      ((zod_errors r \<noteq> None)
         = (\<exists>issues. safeParse (isEmail env) SignUpFormSchema values = SafeParseError issues))
      \<and> (success r \<longrightarrow> zod_errors r = None)
      \<and> ((\<exists>e. fst (signup_try env values) = Throw e) \<longrightarrow> \<not> success r \<and> zod_errors r = None)
      \<and> (zod_errors r \<noteq> None \<longrightarrow> \<not> success r \<and> message r = ''Form validation error''))
   \<and> (fst (signin env values') = Return r' \<longrightarrow>
      ((zod_errors r' \<noteq> None)
         = (\<exists>issues. safeParse (isEmail env) SignInFormSchema values' = SafeParseError issues))
      \<and> (success r' \<longrightarrow> zod_errors r' = None)
      \<and> ((\<exists>e. fst (signin_try env values') = Throw e) \<longrightarrow> \<not> success r' \<and> zod_errors r' = None)
      \<and> (zod_errors r' \<noteq> None \<longrightarrow> \<not> success r' \<and> message r' = ''Form validation error''))"
proof -
  have up: "((zod_errors r \<noteq> None)
         = (\<exists>issues. safeParse (isEmail env) SignUpFormSchema values = SafeParseError issues))
      \<and> (success r \<longrightarrow> zod_errors r = None)
      \<and> ((\<exists>e. fst (signup_try env values) = Throw e) \<longrightarrow> \<not> success r \<and> zod_errors r = None)
      \<and> (zod_errors r \<noteq> None \<longrightarrow> \<not> success r \<and> message r = ''Form validation error'')"
    if r: "fst (signup env values) = Return r"
  proof (cases "safeParse (isEmail env) SignUpFormSchema values")
    case (SafeParseSuccess d)
    from signup_validated [OF SafeParseSuccess r] SafeParseSuccess show ?thesis
      by auto
  next
    case (SafeParseError issues)
    have "\<not> (\<exists>e. fst (signup_try env values) = Throw e)"
      using SafeParseError by (simp add: signup_try_def)
    with signup_validation_failure [OF SafeParseError] r SafeParseError show ?thesis
      by auto
  qed
  have inn: "((zod_errors r' \<noteq> None)
         = (\<exists>issues. safeParse (isEmail env) SignInFormSchema values' = SafeParseError issues))
      \<and> (success r' \<longrightarrow> zod_errors r' = None)
      \<and> ((\<exists>e. fst (signin_try env values') = Throw e) \<longrightarrow> \<not> success r' \<and> zod_errors r' = None)
      \<and> (zod_errors r' \<noteq> None \<longrightarrow> \<not> success r' \<and> message r' = ''Form validation error'')"
    if r: "fst (signin env values') = Return r'"
  proof (cases "safeParse (isEmail env) SignInFormSchema values'")
    case (SafeParseSuccess d)
    from signin_validated [OF SafeParseSuccess r] SafeParseSuccess show ?thesis
      by auto
  next
    case (SafeParseError issues)
    have "\<not> (\<exists>e. fst (signin_try env values') = Throw e)"
      using SafeParseError by (simp add: signin_try_def)
    with signin_validation_failure [OF SafeParseError] r SafeParseError show ?thesis
      by auto
  qed
  from up inn show ?thesis by blast
qed

theorem zod_errors_iff_validation_failed_witness:
  "fst (signup (sample_env accepting_client)
          \<lparr>Credentials.email = ''a@b.com'', password = ''abc'', extra = []\<rparr>)
     = Return \<lparr>success = False, message = ''Form validation error'',
               zod_errors = Some [(''password'',
                 [''Password must be at least 8 characters long'',
                  ''Password must contain at least one uppercase letter'',
                  ''Password must contain at least one number'',
                  ''Password must contain at least one special character (@$!%*?&)''])]\<rparr>
   \<and> (\<exists>issues. safeParse sample_isEmail SignUpFormSchema
          \<lparr>Credentials.email = ''a@b.com'', password = ''abc'', extra = []\<rparr> = SafeParseError issues)
   \<and> fst (signin (sample_env accepting_client)
          \<lparr>Credentials.email = ''a@b.com'', password = ''abc'', extra = []\<rparr>)
     = Return \<lparr>success = False, message = ''Form validation error'',
               zod_errors = Some [(''password'', [''Be at least 8 characters long''])]\<rparr>
   \<and> (\<exists>issues. safeParse sample_isEmail SignInFormSchema
          \<lparr>Credentials.email = ''a@b.com'', password = ''abc'', extra = []\<rparr> = SafeParseError issues)
   \<and> fst (signup (sample_env accepting_client)
          \<lparr>Credentials.email = ''a@b.com'', password = ''Abcdef1!'', extra = []\<rparr>)
     = Return \<lparr>success = True,
               message = ''Account creation successful. Check email to verify.'',
               zod_errors = None\<rparr>
   \<and> \<not> (\<exists>issues. safeParse sample_isEmail SignUpFormSchema
          \<lparr>Credentials.email = ''a@b.com'', password = ''Abcdef1!'', extra = []\<rparr>
        = SafeParseError issues)
   \<and> fst (signin (sample_env accepting_client)
          \<lparr>Credentials.email = ''a@b.com'', password = ''Abcdef1!'', extra = []\<rparr>)
     = Return \<lparr>success = True, message = ''Sign in successful'', zod_errors = None\<rparr>
   \<and> \<not> (\<exists>issues. safeParse sample_isEmail SignInFormSchema
          \<lparr>Credentials.email = ''a@b.com'', password = ''Abcdef1!'', extra = []\<rparr>
        = SafeParseError issues)
   \<and> fst (signup_try (sample_env (throwing_client (OtherError ''fetch failed'')))
          \<lparr>Credentials.email = ''a@b.com'', password = ''Abcdef1!'', extra = []\<rparr>)
     = Throw (OtherError ''fetch failed'')
   \<and> fst (signup (sample_env (throwing_client (OtherError ''fetch failed'')))
          \<lparr>Credentials.email = ''a@b.com'', password = ''Abcdef1!'', extra = []\<rparr>)
     = Return \<lparr>success = False, message = ''Error while sign up'', zod_errors = None\<rparr>
   \<and> fst (signin_try (sample_env (throwing_client (OtherError ''fetch failed'')))
          \<lparr>Credentials.email = ''a@b.com'', password = ''Abcdef1!'', extra = []\<rparr>)
     = Throw (OtherError ''fetch failed'')
   \<and> fst (signin (sample_env (throwing_client (OtherError ''fetch failed'')))
          \<lparr>Credentials.email = ''a@b.com'', password = ''Abcdef1!'', extra = []\<rparr>)
     = Return \<lparr>success = False, message = ''Sign in failed'', zod_errors = None\<rparr>"
proof -
  let ?E = "sample_env accepting_client"
  let ?T = "sample_env (throwing_client (OtherError ''fetch failed''))"
  let ?V = "\<lparr>Credentials.email = ''a@b.com'', password = ''abc'', extra = []\<rparr>"
  let ?W = "\<lparr>Credentials.email = ''a@b.com'', password = ''Abcdef1!'', extra = []\<rparr>"
  let ?up = "\<lparr>success = False, message = ''Form validation error'',
               zod_errors = Some [(''password'',
                 [''Password must be at least 8 characters long'',
                  ''Password must contain at least one uppercase letter'',
                  ''Password must contain at least one number'',
                  ''Password must contain at least one special character (@$!%*?&)''])]\<rparr>"
  let ?in = "\<lparr>success = False, message = ''Form validation error'',
               zod_errors = Some [(''password'', [''Be at least 8 characters long''])]\<rparr>"
  let ?up_ok = "\<lparr>success = True,
               message = ''Account creation successful. Check email to verify.'',
               zod_errors = None\<rparr>"
  let ?in_ok = "\<lparr>success = True, message = ''Sign in successful'', zod_errors = None\<rparr>"
  let ?up_ko = "\<lparr>success = False, message = ''Error while sign up'', zod_errors = None\<rparr>"
  let ?in_ko = "\<lparr>success = False, message = ''Sign in failed'', zod_errors = None\<rparr>"
  have e: "isEmail ?E = sample_isEmail" "isEmail ?T = sample_isEmail"
    by (simp_all add: sample_env_def)
  have up: "fst (signup ?E ?V) = Return ?up"
    by (simp add: signup_def signup_try_def try_catch_def safeParse_def SignUpFormSchema_def
        ZodString_issues_def regex_test_def flatten_fieldErrors_def
        sample_env_def sample_isEmail_def)
  have inn: "fst (signin ?E ?V) = Return ?in"
    by (simp add: signin_def signin_try_def try_catch_def safeParse_def SignInFormSchema_def
        ZodString_issues_def flatten_fieldErrors_def sample_env_def sample_isEmail_def)
  have z: "zod_errors ?up \<noteq> None" "zod_errors ?in \<noteq> None"
    by simp_all
  from zod_errors_iff_validation_failed [of ?E ?V ?up ?V ?in] up inn z e
  have failed: "\<exists>issues. safeParse sample_isEmail SignUpFormSchema ?V = SafeParseError issues"
    "\<exists>issues. safeParse sample_isEmail SignInFormSchema ?V = SafeParseError issues"
    by simp_all
  have up_ok: "fst (signup ?E ?W) = Return ?up_ok"
    by (simp add: signup_def signup_try_def try_catch_def safeParse_def SignUpFormSchema_def
        ZodString_issues_def regex_test_def sample_env_def sample_isEmail_def
        accepting_client_def)
  have in_ok: "fst (signin ?E ?W) = Return ?in_ok"
    by (simp add: signin_def signin_try_def try_catch_def safeParse_def SignInFormSchema_def
        ZodString_issues_def sample_env_def sample_isEmail_def accepting_client_def)
  have s: "success ?up_ok" "success ?in_ok"
    by simp_all
  from zod_errors_iff_validation_failed [of ?E ?W ?up_ok ?W ?in_ok] up_ok in_ok s e
  have passed: "\<not> (\<exists>issues. safeParse sample_isEmail SignUpFormSchema ?W = SafeParseError issues)"
    "\<not> (\<exists>issues. safeParse sample_isEmail SignInFormSchema ?W = SafeParseError issues)"
    by simp_all
  have up_try: "fst (signup_try ?T ?W) = Throw (OtherError ''fetch failed'')"
    by (simp add: signup_try_def safeParse_def SignUpFormSchema_def ZodString_issues_def
        regex_test_def sample_env_def sample_isEmail_def throwing_client_def)
  have in_try: "fst (signin_try ?T ?W) = Throw (OtherError ''fetch failed'')"
    by (simp add: signin_try_def safeParse_def SignInFormSchema_def ZodString_issues_def
        sample_env_def sample_isEmail_def throwing_client_def)
  have up_ko: "fst (signup ?T ?W) = Return ?up_ko"
    using up_try by (simp add: signup_def try_catch_Throw signup_catch_def)
  have in_ko: "fst (signin ?T ?W) = Return ?in_ko"
    using in_try by (simp add: signin_def try_catch_Throw signin_catch_def)
  from zod_errors_iff_validation_failed [of ?T ?W ?up_ko ?W ?in_ko] up_ko in_ko up_try in_try
  have omitted: "zod_errors ?up_ko = None" "zod_errors ?in_ko = None"
    by simp_all
  show ?thesis
    by (intro conjI up failed inn up_ok passed in_ok up_try up_ko in_try in_ko)
qed

section \<open>Redirect targets\<close>

lemma try_ignores_APP_URL:
  "signup_try (env\<lparr>NEXT_PUBLIC_APP_URL := url\<rparr>) values = signup_try env values"
  "signin_try (env\<lparr>NEXT_PUBLIC_APP_URL := url\<rparr>) values = signin_try env values"
  "signOAuth_try (env\<lparr>NEXT_PUBLIC_APP_URL := url\<rparr>) provider = signOAuth_try env provider"
  "resetPassword_try (env\<lparr>NEXT_PUBLIC_APP_URL := url\<rparr>) newPassword
     = resetPassword_try env newPassword"
  "signout_try (env\<lparr>NEXT_PUBLIC_APP_URL := url\<rparr>) = signout_try env"
  "getSession_try (env\<lparr>NEXT_PUBLIC_APP_URL := url\<rparr>) = getSession_try env"
proof -
  show "signup_try (env\<lparr>NEXT_PUBLIC_APP_URL := url\<rparr>) values = signup_try env values"
    by (simp add: signup_try_def split: SafeParseReturnType.splits)
  show "signin_try (env\<lparr>NEXT_PUBLIC_APP_URL := url\<rparr>) values = signin_try env values"
    by (simp add: signin_try_def split: SafeParseReturnType.splits)
  show "signOAuth_try (env\<lparr>NEXT_PUBLIC_APP_URL := url\<rparr>) provider = signOAuth_try env provider"
    by (simp add: signOAuth_try_def)
  show "resetPassword_try (env\<lparr>NEXT_PUBLIC_APP_URL := url\<rparr>) newPassword
     = resetPassword_try env newPassword"
    by (simp add: resetPassword_try_def)
  show "signout_try (env\<lparr>NEXT_PUBLIC_APP_URL := url\<rparr>) = signout_try env"
    by (simp add: signout_try_def)
  show "getSession_try (env\<lparr>NEXT_PUBLIC_APP_URL := url\<rparr>) = getSession_try env"
    by (simp add: getSession_try_def)
qed

text \<open>
  C10. \<open>signOAuth\<close> always invokes the provider's OAuth initiation with the redirect target
  set to the empty string: no other call is made, and the call is made whenever the
  client is available. The configured application base URL of the process environment is
  used only by \<open>forgotPassword\<close>, to build its password-reset redirect; the OAuth flow and
  the other handlers do not depend on it.
\<close>

theorem signOAuth_redirect_is_empty:
  "(\<forall>c \<in> set (provider_calls (snd (signOAuth env provider))). c = SignInWithOAuth provider '''')
   \<and> (createClient env = Return supabase \<longrightarrow>
        provider_calls (snd (signOAuth env provider)) = [SignInWithOAuth provider ''''])
   \<and> (createClient env = Return supabase \<longrightarrow>
        provider_calls (snd (forgotPassword env email')) =
          [ResetPasswordForEmail (ForgotPasswordValues.email email')
             (template_string (NEXT_PUBLIC_APP_URL env) @ ''/reset-password'')])
   \<and> signOAuth (env\<lparr>NEXT_PUBLIC_APP_URL := url\<rparr>) provider = signOAuth env provider
   \<and> signup (env\<lparr>NEXT_PUBLIC_APP_URL := url\<rparr>) values = signup env values
   \<and> signin (env\<lparr>NEXT_PUBLIC_APP_URL := url\<rparr>) values = signin env values
   \<and> resetPassword (env\<lparr>NEXT_PUBLIC_APP_URL := url\<rparr>) newPassword = resetPassword env newPassword
   \<and> signout (env\<lparr>NEXT_PUBLIC_APP_URL := url\<rparr>) = signout env
   \<and> getSession (env\<lparr>NEXT_PUBLIC_APP_URL := url\<rparr>) = getSession env"
proof -
  have calls: "provider_calls (snd (signOAuth env provider)) =
      (case createClient env of Return s \<Rightarrow> [SignInWithOAuth provider ''''] | Throw e \<Rightarrow> [])"
    by (simp add: signOAuth_def signOAuth_try_def signOAuth_catch_def try_catch_def
        split: completion.splits option.splits prod.splits)
  have a: "\<forall>c \<in> set (provider_calls (snd (signOAuth env provider))).
      c = SignInWithOAuth provider ''''"
    unfolding calls by (simp split: completion.splits)
  have b: "createClient env = Return supabase \<longrightarrow>
        provider_calls (snd (signOAuth env provider)) = [SignInWithOAuth provider '''']"
    unfolding calls by simp
  have c: "createClient env = Return supabase \<longrightarrow>
        provider_calls (snd (forgotPassword env email')) =
          [ResetPasswordForEmail (ForgotPasswordValues.email email')
             (template_string (NEXT_PUBLIC_APP_URL env) @ ''/reset-password'')]"
    by (simp add: forgotPassword_def forgotPassword_try_def forgotPassword_catch_def
        try_catch_def Let_def split: completion.splits option.splits)
  have d: "signOAuth (env\<lparr>NEXT_PUBLIC_APP_URL := url\<rparr>) provider = signOAuth env provider"
    "signup (env\<lparr>NEXT_PUBLIC_APP_URL := url\<rparr>) values = signup env values"
    "signin (env\<lparr>NEXT_PUBLIC_APP_URL := url\<rparr>) values = signin env values"
    "resetPassword (env\<lparr>NEXT_PUBLIC_APP_URL := url\<rparr>) newPassword = resetPassword env newPassword"
    "signout (env\<lparr>NEXT_PUBLIC_APP_URL := url\<rparr>) = signout env"
    "getSession (env\<lparr>NEXT_PUBLIC_APP_URL := url\<rparr>) = getSession env"
    by (simp_all only: try_ignores_APP_URL signOAuth_def signup_def signin_def resetPassword_def
        signout_def getSession_def)
  show ?thesis by (intro conjI a b c d)
qed

theorem signOAuth_redirect_is_empty_witness:
  "provider_calls (snd (signOAuth (sample_env accepting_client) ''github''))
     = [SignInWithOAuth ''github'' '''']
   \<and> provider_calls (snd (forgotPassword (sample_env accepting_client)
                              \<lparr>ForgotPasswordValues.email = ''a@b.com''\<rparr>))
     = [ResetPasswordForEmail ''a@b.com'' ''http://localhost:3000/reset-password'']
   \<and> signOAuth ((sample_env accepting_client)\<lparr>NEXT_PUBLIC_APP_URL := None\<rparr>) ''github''
     = signOAuth (sample_env accepting_client) ''github''"
proof -
  let ?E = "sample_env accepting_client"
  have c: "createClient ?E = Return accepting_client"
    by (simp add: sample_env_def)
  have u: "template_string (NEXT_PUBLIC_APP_URL ?E) @ ''/reset-password''
             = ''http://localhost:3000/reset-password''"
    by (simp add: sample_env_def)
  note t = signOAuth_redirect_is_empty [of ?E "''github''" accepting_client
      "\<lparr>ForgotPasswordValues.email = ''a@b.com''\<rparr>" None
      "\<lparr>Credentials.email = ''a@b.com'', password = ''Abcdef1!'', extra = []\<rparr>"
      "\<lparr>ResetPasswordValues.password = ''Abcdef1!'', confirmPassword = ''Abcdef1!''\<rparr>"]
  note f1 = t [THEN conjunct2, THEN conjunct1, rule_format, OF c]
  note f2 = t [THEN conjunct2, THEN conjunct2, THEN conjunct1, rule_format, OF c]
  note f3 = t [THEN conjunct2, THEN conjunct2, THEN conjunct2, THEN conjunct1]
  have f2': "provider_calls (snd (forgotPassword ?E \<lparr>ForgotPasswordValues.email = ''a@b.com''\<rparr>))
     = [ResetPasswordForEmail ''a@b.com'' ''http://localhost:3000/reset-password'']"
    using f2 unfolding u by simp
  show ?thesis by (intro conjI f1 f2' f3)
qed

section \<open>The password rules of the schemas\<close>

lemma regex_test_iff: "regex_test r s \<longleftrightarrow> (\<exists>c \<in> set s. regex_char r c)"
  by (simp add: regex_test_def list_ex_iff)

lemma regex_uppercase:
  "regex_char (CharRange CHR ''A'' CHR ''Z'') c \<longleftrightarrow> c \<in> set uppercase_letters"
proof -
  have "c \<in> set uppercase_letters \<longleftrightarrow>
      (of_char c :: nat) \<in> of_char ` set uppercase_letters"
    by (rule inj_image_mem_iff [OF inj_of_char, symmetric])
  also have "\<dots> \<longleftrightarrow> 65 \<le> (of_char c :: nat) \<and> (of_char c :: nat) \<le> 90"
    unfolding uppercase_letters_def by simp presburger
  finally show ?thesis by simp
qed

lemma regex_lowercase:
  "regex_char (CharRange CHR ''a'' CHR ''z'') c \<longleftrightarrow> c \<in> set lowercase_letters"
proof -
  have "c \<in> set lowercase_letters \<longleftrightarrow>
      (of_char c :: nat) \<in> of_char ` set lowercase_letters"
    by (rule inj_image_mem_iff [OF inj_of_char, symmetric])
  also have "\<dots> \<longleftrightarrow> 97 \<le> (of_char c :: nat) \<and> (of_char c :: nat) \<le> 122"
    unfolding lowercase_letters_def by simp presburger
  finally show ?thesis by simp
qed

lemma regex_digit: "regex_char DigitClass c \<longleftrightarrow> c \<in> set digits"
proof -
  have "c \<in> set digits \<longleftrightarrow> (of_char c :: nat) \<in> of_char ` set digits"
    by (rule inj_image_mem_iff [OF inj_of_char, symmetric])
  also have "\<dots> \<longleftrightarrow> 48 \<le> (of_char c :: nat) \<and> (of_char c :: nat) \<le> 57"
    unfolding digits_def by simp presburger
  finally show ?thesis by simp
qed

lemma regex_special: "regex_char (CharSet ''@$!%*?&'') c \<longleftrightarrow> c \<in> set special_characters"
  by (simp add: special_characters_def)

lemmas regex_classes =
  regex_test_iff regex_uppercase regex_lowercase regex_digit regex_special

lemma ZodString_issues_empty:
  "ZodString_issues isE checks path s = [] \<longleftrightarrow> list_all (\<lambda>c. check_passes isE c s) checks"
  by (induction checks) (simp_all add: ZodString_issues_def)

lemma ZodString_issues_path:
  "filter (\<lambda>i. issue_path i = p) (ZodString_issues isE checks path s) =
     (if path = p then ZodString_issues isE checks path s else [])"
  by (induction checks) (simp_all add: ZodString_issues_def)

lemma SignUpFormSchema_issues:
  "parse_issues isE SignUpFormSchema v =
     ZodString_issues isE [Email ''Please enter a valid email''] [''email''] (Credentials.email v)
     @ ZodString_issues isE
         [Min 8 ''Password must be at least 8 characters long'',
          Regex (CharRange CHR ''A'' CHR ''Z'')
            ''Password must contain at least one uppercase letter'',
          Regex (CharRange CHR ''a'' CHR ''z'')
            ''Password must contain at least one lowercase letter'',
          Regex DigitClass ''Password must contain at least one number'',
          Regex (CharSet ''@$!%*?&'')
            ''Password must contain at least one special character (@$!%*?&)'']
         [''password''] (Credentials.password v)"
  by (simp add: SignUpFormSchema_def)

lemma safeParse_success_iff:
  "(\<exists>data. safeParse isE schema v = SafeParseSuccess data) \<longleftrightarrow> parse_issues isE schema v = []"
  by (simp add: safeParse_def split: list.splits)

lemma SignUp_password_abc:
  "ZodString_issues isE
         [Min 8 ''Password must be at least 8 characters long'',
          Regex (CharRange CHR ''A'' CHR ''Z'')
            ''Password must contain at least one uppercase letter'',
          Regex (CharRange CHR ''a'' CHR ''z'')
            ''Password must contain at least one lowercase letter'',
          Regex DigitClass ''Password must contain at least one number'',
          Regex (CharSet ''@$!%*?&'')
            ''Password must contain at least one special character (@$!%*?&)'']
         [''password''] ''abc'' =
     [ZodIssue [''password''] ''Password must be at least 8 characters long'',
      ZodIssue [''password''] ''Password must contain at least one uppercase letter'',
      ZodIssue [''password''] ''Password must contain at least one number'',
      ZodIssue [''password''] ''Password must contain at least one special character (@$!%*?&)'']"
  by (simp add: ZodString_issues_def regex_test_def)

text \<open>
  C6. The sign-up password validator accepts a password exactly when it has at least 8
  characters, at least one uppercase letter, at least one lowercase letter, at least one
  digit, and at least one character from the set \<open>@$!%*?&\<close>; in particular sign-up with
  password \<open>abc\<close> fails validation listing exactly the minimum-length, uppercase, digit and
  special-character violations (not lowercase).
\<close>

theorem signup_password_rules:
  "((\<exists>data. safeParse isE SignUpFormSchema values = SafeParseSuccess data)
      \<longleftrightarrow> isE (Credentials.email values) \<and> password_rules (Credentials.password values))
   \<and> (filter (\<lambda>i. issue_path i = [''password'']) (parse_issues isE SignUpFormSchema values) = []
      \<longleftrightarrow> password_rules (Credentials.password values))
   \<and> map issue_message
        (filter (\<lambda>i. issue_path i = [''password''])
           (parse_issues isE SignUpFormSchema (values\<lparr>Credentials.password := ''abc''\<rparr>)))
      = [''Password must be at least 8 characters long'',
         ''Password must contain at least one uppercase letter'',
         ''Password must contain at least one number'',
         ''Password must contain at least one special character (@$!%*?&)'']
   \<and> (\<exists>fe. signup env (values\<lparr>Credentials.password := ''abc''\<rparr>)
              = (Return \<lparr>success = False, message = ''Form validation error'',
                         zod_errors = Some fe\<rparr>, [])
            \<and> map_of fe ''password''
                = Some [''Password must be at least 8 characters long'',
                        ''Password must contain at least one uppercase letter'',
                        ''Password must contain at least one number'',
                        ''Password must contain at least one special character (@$!%*?&)''])"
proof -
  have a: "(\<exists>data. safeParse isE SignUpFormSchema values = SafeParseSuccess data)
      \<longleftrightarrow> isE (Credentials.email values) \<and> password_rules (Credentials.password values)"
    unfolding safeParse_success_iff SignUpFormSchema_issues
    by (simp add: ZodString_issues_empty regex_classes password_rules_def del: regex_char.simps)
  have b: "filter (\<lambda>i. issue_path i = [''password'']) (parse_issues isE SignUpFormSchema values) = []
      \<longleftrightarrow> password_rules (Credentials.password values)"
    unfolding SignUpFormSchema_issues
    by (simp add: ZodString_issues_path ZodString_issues_empty regex_classes password_rules_def
        del: regex_char.simps)
  have c: "map issue_message
        (filter (\<lambda>i. issue_path i = [''password''])
           (parse_issues isE SignUpFormSchema (values\<lparr>Credentials.password := ''abc''\<rparr>)))
      = [''Password must be at least 8 characters long'',
         ''Password must contain at least one uppercase letter'',
         ''Password must contain at least one number'',
         ''Password must contain at least one special character (@$!%*?&)'']"
    unfolding SignUpFormSchema_issues
    by (simp add: ZodString_issues_path SignUp_password_abc)
  let ?pw = "[ZodIssue [''password''] ''Password must be at least 8 characters long'',
      ZodIssue [''password''] ''Password must contain at least one uppercase letter'',
      ZodIssue [''password''] ''Password must contain at least one number'',
      ZodIssue [''password''] ''Password must contain at least one special character (@$!%*?&)'']"
  let ?em = "ZodString_issues (isEmail env) [Email ''Please enter a valid email''] [''email'']
      (Credentials.email values)"
  have issues: "parse_issues (isEmail env) SignUpFormSchema (values\<lparr>Credentials.password := ''abc''\<rparr>)
      = ?em @ ?pw"
    unfolding SignUpFormSchema_issues by (simp add: SignUp_password_abc)
  then have "safeParse (isEmail env) SignUpFormSchema (values\<lparr>Credentials.password := ''abc''\<rparr>)
      = SafeParseError (?em @ ?pw)"
    by (simp add: safeParse_def split: list.splits)
  from signup_validation_failure [OF this]
  have run: "signup env (values\<lparr>Credentials.password := ''abc''\<rparr>)
      = (Return \<lparr>success = False, message = ''Form validation error'',
                 zod_errors = Some (flatten_fieldErrors (?em @ ?pw))\<rparr>, [])" .
  have "map_of (flatten_fieldErrors (?em @ ?pw)) ''password''
      = Some [''Password must be at least 8 characters long'',
              ''Password must contain at least one uppercase letter'',
              ''Password must contain at least one number'',
              ''Password must contain at least one special character (@$!%*?&)'']"
    by (cases "isEmail env (Credentials.email values)")
      (simp_all add: ZodString_issues_def flatten_fieldErrors_def)
  with run have d: "\<exists>fe. signup env (values\<lparr>Credentials.password := ''abc''\<rparr>)
              = (Return \<lparr>success = False, message = ''Form validation error'',
                         zod_errors = Some fe\<rparr>, [])
            \<and> map_of fe ''password''
                = Some [''Password must be at least 8 characters long'',
                        ''Password must contain at least one uppercase letter'',
                        ''Password must contain at least one number'',
                        ''Password must contain at least one special character (@$!%*?&)'']"
    by blast
  show ?thesis by (intro conjI a b c d)
qed

theorem signup_password_rules_witness:
  "password_rules ''Abcdef1!''
   \<and> (\<exists>data. safeParse sample_isEmail SignUpFormSchema
         \<lparr>Credentials.email = ''a@b.com'', password = ''Abcdef1!'', extra = []\<rparr>
       = SafeParseSuccess data)
   \<and> \<not> password_rules ''abc''
   \<and> \<not> (\<exists>data. safeParse sample_isEmail SignUpFormSchema
         \<lparr>Credentials.email = ''a@b.com'', password = ''abc'', extra = []\<rparr>
       = SafeParseSuccess data)"
proof -
  have good: "password_rules ''Abcdef1!''"
    by (simp add: password_rules_def uppercase_letters_def lowercase_letters_def digits_def
        special_characters_def)
  have bad: "\<not> password_rules ''abc''"
    by (simp add: password_rules_def)
  have e: "sample_isEmail ''a@b.com''"
    by (simp add: sample_isEmail_def)
  note t = signup_password_rules [THEN conjunct1, of sample_isEmail]
  from t [of "\<lparr>Credentials.email = ''a@b.com'', password = ''Abcdef1!'', extra = []\<rparr>"]
    t [of "\<lparr>Credentials.email = ''a@b.com'', password = ''abc'', extra = []\<rparr>"]
    good bad e
  show ?thesis by simp
qed

section \<open>Password confirmation\<close>

lemma flatten_fieldErrors_snoc:
  "flatten_fieldErrors (issues @ [ZodIssue (k # p) m])
     = push_fieldError k m (flatten_fieldErrors issues)"
  by (simp add: flatten_fieldErrors_def)

lemma foldl_same_field:
  "foldl (\<lambda>acc i. case issue_path i of [] \<Rightarrow> acc
                    | k # _ \<Rightarrow> push_fieldError k (issue_message i) acc)
     [(k, ms0)] (map (ZodIssue [k]) ms) = [(k, ms0 @ ms)]"
  by (induction ms arbitrary: ms0) simp_all

lemma flatten_fieldErrors_same_field:
  "flatten_fieldErrors (map (ZodIssue [k]) ms) = (if ms = [] then [] else [(k, ms)])"
proof (cases ms)
  case Nil
  then show ?thesis by (simp add: flatten_fieldErrors_def)
next
  case (Cons m ms')
  then show ?thesis
    using foldl_same_field [of k "[m]" ms'] by (simp add: flatten_fieldErrors_def)
qed

lemma ZodString_issues_messages:
  "ZodString_issues isE checks [k] s
     = map (ZodIssue [k]) (map check_message (filter (\<lambda>c. \<not> check_passes isE c s) checks))"
  by (simp add: ZodString_issues_def)

lemma ResetPasswordSchema_issues:
  "parse_issues isE ResetPasswordSchema v =
     ZodString_issues isE ResetPassword_password_checks [''password'']
       (ResetPasswordValues.password v)
     @ (if ResetPasswordValues.password v = confirmPassword v then []
        else [ZodIssue [''confirmPassword''] ''Password don't match''])"
  by (simp add: ResetPasswordSchema_def ResetPassword_password_checks_def ZodString_issues_def)

lemma ResetPassword_password_ok:
  "filter (\<lambda>c. \<not> check_passes isE c s) ResetPassword_password_checks = []
     \<longleftrightarrow> password_rules s"
  by (simp add: ResetPassword_password_checks_def filter_empty_conv regex_classes
      password_rules_def del: regex_char.simps)

lemma ResetPassword_password_messages:
  "''Password don't match''
     \<notin> set (map check_message (filter (\<lambda>c. \<not> check_passes isE c s) ResetPassword_password_checks))"
proof -
  have "set (map check_message (filter (\<lambda>c. \<not> check_passes isE c s) ResetPassword_password_checks))
      \<subseteq> set (map check_message ResetPassword_password_checks)"
    by auto
  moreover have "''Password don't match'' \<notin> set (map check_message ResetPassword_password_checks)"
    by (simp add: ResetPassword_password_checks_def)
  ultimately show ?thesis by blast
qed

text \<open>
  What \<open>ResetPasswordSchema\<close> reports on an input whose \<open>confirmPassword\<close> is not
  string-equal to \<open>password\<close>: it fails; the field-error map lists under \<open>confirmPassword\<close>
  exactly the message \<open>Password don't match\<close> and never lists that message under
  \<open>password\<close>; \<open>confirmPassword\<close> is the only field of the map when the password satisfies
  the password rules, and otherwise the messages of the violated password checks, in the
  order the checks are declared, are listed under \<open>password\<close> before it.
\<close>

lemma ResetPasswordSchema_mismatch:
  assumes "confirmPassword v \<noteq> ResetPasswordValues.password v"
  shows "\<exists>issues. safeParse isE ResetPasswordSchema v = SafeParseError issues
     \<and> map_of (flatten_fieldErrors issues) ''confirmPassword'' = Some [''Password don't match'']
     \<and> (\<forall>ms. map_of (flatten_fieldErrors issues) ''password'' = Some ms
            \<longrightarrow> ''Password don't match'' \<notin> set ms)
     \<and> (password_rules (ResetPasswordValues.password v)
            \<longrightarrow> flatten_fieldErrors issues = [(''confirmPassword'', [''Password don't match''])])
     \<and> (\<not> password_rules (ResetPasswordValues.password v)
            \<longrightarrow> map check_message
                  (filter (\<lambda>c. \<not> check_passes isE c (ResetPasswordValues.password v))
                     ResetPassword_password_checks) \<noteq> []
              \<and> flatten_fieldErrors issues =
                  [(''password'',
                    map check_message
                      (filter (\<lambda>c. \<not> check_passes isE c (ResetPasswordValues.password v))
                         ResetPassword_password_checks)),
                   (''confirmPassword'', [''Password don't match''])])"
proof -
  let ?ms = "map check_message
      (filter (\<lambda>c. \<not> check_passes isE c (ResetPasswordValues.password v))
         ResetPassword_password_checks)"
  let ?issues = "map (ZodIssue [''password'']) ?ms
      @ [ZodIssue [''confirmPassword''] ''Password don't match'']"
  have issues: "parse_issues isE ResetPasswordSchema v = ?issues"
    using assms by (simp add: ResetPasswordSchema_issues ZodString_issues_messages)
  then have parse: "safeParse isE ResetPasswordSchema v = SafeParseError ?issues"
    by (simp add: safeParse_def split: list.splits)
  have flat: "flatten_fieldErrors ?issues =
      (if ?ms = [] then [(''confirmPassword'', [''Password don't match''])]
       else [(''password'', ?ms), (''confirmPassword'', [''Password don't match''])])"
    by (simp only: flatten_fieldErrors_snoc flatten_fieldErrors_same_field) simp
  have rules: "?ms = [] \<longleftrightarrow> password_rules (ResetPasswordValues.password v)"
    using ResetPassword_password_ok [of isE "ResetPasswordValues.password v"] by simp
  have a: "map_of (flatten_fieldErrors ?issues) ''confirmPassword'' = Some [''Password don't match'']"
    unfolding flat by simp
  have b: "\<forall>ms. map_of (flatten_fieldErrors ?issues) ''password'' = Some ms
            \<longrightarrow> ''Password don't match'' \<notin> set ms"
    unfolding flat using ResetPassword_password_messages [of isE "ResetPasswordValues.password v"]
    by (simp split: if_splits)
  have c: "password_rules (ResetPasswordValues.password v)
            \<longrightarrow> flatten_fieldErrors ?issues = [(''confirmPassword'', [''Password don't match''])]"
    unfolding flat using rules by simp
  have d: "\<not> password_rules (ResetPasswordValues.password v)
            \<longrightarrow> ?ms \<noteq> []
              \<and> flatten_fieldErrors ?issues =
                  [(''password'', ?ms), (''confirmPassword'', [''Password don't match''])]"
    unfolding flat using rules by simp
  from parse a b c d show ?thesis by blast
qed

lemma ResetPasswordSchema_mismatch_examples:
  "flatten_fieldErrors
     (parse_issues sample_isEmail ResetPasswordSchema
        \<lparr>ResetPasswordValues.password = ''Abcdef1!'', confirmPassword = ''Abcdef2!''\<rparr>)
     = [(''confirmPassword'', [''Password don't match''])]"
  "flatten_fieldErrors
     (parse_issues sample_isEmail ResetPasswordSchema
        \<lparr>ResetPasswordValues.password = ''abc'', confirmPassword = ''abd''\<rparr>)
     = [(''password'',
          [''Be at least 8 characters long'',
           ''Must contain at least one uppercase letter'',
           ''Must contain at least one number'',
           ''Must contain at least one special character (@$!%*?&)'']),
        (''confirmPassword'', [''Password don't match''])]"
  by (simp_all add: ResetPasswordSchema_def ZodString_issues_def regex_test_def
      flatten_fieldErrors_def)

text \<open>
  C3. For every reset-password input whose \<open>confirmPassword\<close> is not string-equal to
  \<open>password\<close> (for example password \<open>Abcdef1!\<close> with confirmPassword \<open>Abcdef2!\<close>), the
  reset-password flow yields a validation failure reported solely against the
  \<open>confirmPassword\<close> field with the message \<open>Password don't match\<close>, never against the
  \<open>password\<close> field.

  The code at the example of the claim, with a provider that accepts:
  \<open>ResetPasswordSchema\<close> would report the mismatch, solely under \<open>confirmPassword\<close>, but
  \<open>resetPassword\<close> does not run it. The handler reports no validation failure: it asks the
  provider to set the password \<open>Abcdef1!\<close> and returns \<open>success: true\<close> without field errors.
\<close>

theorem resetPassword_ignores_mismatch:
  "confirmPassword \<lparr>ResetPasswordValues.password = ''Abcdef1!'', confirmPassword = ''Abcdef2!''\<rparr>
     \<noteq> ResetPasswordValues.password
         \<lparr>ResetPasswordValues.password = ''Abcdef1!'', confirmPassword = ''Abcdef2!''\<rparr>
   \<and> (\<exists>issues. safeParse sample_isEmail ResetPasswordSchema
          \<lparr>ResetPasswordValues.password = ''Abcdef1!'', confirmPassword = ''Abcdef2!''\<rparr>
         = SafeParseError issues
        \<and> flatten_fieldErrors issues = [(''confirmPassword'', [''Password don't match''])])
   \<and> fst (resetPassword (sample_env accepting_client)
        \<lparr>ResetPasswordValues.password = ''Abcdef1!'', confirmPassword = ''Abcdef2!''\<rparr>)
     = Return \<lparr>success = True, message = ''Password reset successful. Please Sign in.'',
               zod_errors = None\<rparr>
   \<and> provider_calls (snd (resetPassword (sample_env accepting_client)
        \<lparr>ResetPasswordValues.password = ''Abcdef1!'', confirmPassword = ''Abcdef2!''\<rparr>))
     = [UpdateUser ''Abcdef1!'']"
proof -
  let ?v = "\<lparr>ResetPasswordValues.password = ''Abcdef1!'', confirmPassword = ''Abcdef2!''\<rparr>"
  have a: "confirmPassword ?v \<noteq> ResetPasswordValues.password ?v"
    by simp
  have "safeParse sample_isEmail ResetPasswordSchema ?v
      = SafeParseError [ZodIssue [''confirmPassword''] ''Password don't match'']"
    by (simp add: safeParse_def ResetPasswordSchema_def ZodString_issues_def regex_test_def)
  moreover have "flatten_fieldErrors [ZodIssue [''confirmPassword''] ''Password don't match'']
      = [(''confirmPassword'', [''Password don't match''])]"
    by (simp add: flatten_fieldErrors_def)
  ultimately have b: "\<exists>issues. safeParse sample_isEmail ResetPasswordSchema ?v = SafeParseError issues
        \<and> flatten_fieldErrors issues = [(''confirmPassword'', [''Password don't match''])]"
    by blast
  have run: "resetPassword (sample_env accepting_client) ?v
      = (Return \<lparr>success = True, message = ''Password reset successful. Please Sign in.'',
                 zod_errors = None\<rparr>,
         [Provider (UpdateUser ''Abcdef1!'')])"
    by (simp add: resetPassword_def resetPassword_try_def try_catch_def sample_env_def
        accepting_client_def)
  have c: "fst (resetPassword (sample_env accepting_client) ?v)
      = Return \<lparr>success = True, message = ''Password reset successful. Please Sign in.'',
                zod_errors = None\<rparr>"
    unfolding run by simp
  have d: "provider_calls (snd (resetPassword (sample_env accepting_client) ?v))
      = [UpdateUser ''Abcdef1!'']"
    unfolding run by simp
  show ?thesis by (intro conjI a b c d)
qed

section \<open>Validation before delegation\<close>

text \<open>
  \<open>signup\<close> and \<open>signin\<close> run their schema first: an input that fails it is answered with
  the field errors and the provider is not invoked.
\<close>

lemma signup_signin_validate_first:
  "safeParse (isEmail env) SignUpFormSchema values = SafeParseError issues \<Longrightarrow>
     fst (signup env values) =
       Return \<lparr>success = False, message = ''Form validation error'',
               zod_errors = Some (flatten_fieldErrors issues)\<rparr>
     \<and> provider_calls (snd (signup env values)) = []"
  "safeParse (isEmail env) SignInFormSchema values = SafeParseError issues \<Longrightarrow>
     fst (signin env values) =
       Return \<lparr>success = False, message = ''Form validation error'',
               zod_errors = Some (flatten_fieldErrors issues)\<rparr>
     \<and> provider_calls (snd (signin env values)) = []"
  by (simp_all add: signup_validation_failure signin_validation_failure)

text \<open>
  \<open>forgotPassword\<close> and \<open>resetPassword\<close> never consult a schema: their envelopes carry no
  field errors, and whenever the client is available the provider is invoked with the
  raw field, whatever it is.
\<close>

lemma forgotPassword_resetPassword_never_validate:
  "fst (forgotPassword env email') = Return r \<Longrightarrow> zod_errors r = None"
  "fst (resetPassword env newPassword) = Return r' \<Longrightarrow> zod_errors r' = None"
  "createClient env = Return supabase \<Longrightarrow>
     provider_calls (snd (resetPassword env newPassword))
       = [UpdateUser (ResetPasswordValues.password newPassword)]"
  by (auto simp: forgotPassword_def forgotPassword_try_def forgotPassword_catch_def
      resetPassword_def resetPassword_try_def resetPassword_catch_def try_catch_def Let_def
      split: completion.splits option.splits)

text \<open>
  C1. For every handler that takes credential input (\<open>signup\<close>, \<open>signin\<close>,
  \<open>forgotPassword\<close>, \<open>resetPassword\<close>), the handler first runs the matching schema
  validator, and whenever the input fails validation it returns an envelope with
  \<open>success: false\<close>, message \<open>Form validation error\<close> and the per-field error map, without
  invoking the external identity provider.

  The code at two inputs that fail their schema: \<open>forgotPassword({email: "not-an-email"})\<close>
  and \<open>resetPassword({password: "Abcdef1!", confirmPassword: "Abcdef2!"})\<close>, with a
  provider that accepts. Both handlers invoke the provider and report success.
\<close>

theorem forgotPassword_resetPassword_skip_validation:
  "safeParse sample_isEmail ForgotPasswordSchema \<lparr>ForgotPasswordValues.email = ''not-an-email''\<rparr>
     = SafeParseError [ZodIssue [''email''] ''Please enter valid email'']
   \<and> forgotPassword (sample_env accepting_client)
        \<lparr>ForgotPasswordValues.email = ''not-an-email''\<rparr>
     = (Return \<lparr>success = True, message = ''Reset link sent. Please check.'',
                zod_errors = None\<rparr>,
        [Provider (ResetPasswordForEmail ''not-an-email''
                     ''http://localhost:3000/reset-password'')])
   \<and> safeParse sample_isEmail ResetPasswordSchema
        \<lparr>ResetPasswordValues.password = ''Abcdef1!'', confirmPassword = ''Abcdef2!''\<rparr>
     = SafeParseError [ZodIssue [''confirmPassword''] ''Password don't match'']
   \<and> resetPassword (sample_env accepting_client)
        \<lparr>ResetPasswordValues.password = ''Abcdef1!'', confirmPassword = ''Abcdef2!''\<rparr>
     = (Return \<lparr>success = True, message = ''Password reset successful. Please Sign in.'',
                zod_errors = None\<rparr>,
        [Provider (UpdateUser ''Abcdef1!'')])"
proof -
  have a: "safeParse sample_isEmail ForgotPasswordSchema
        \<lparr>ForgotPasswordValues.email = ''not-an-email''\<rparr>
     = SafeParseError [ZodIssue [''email''] ''Please enter valid email'']"
    by (simp add: safeParse_def ForgotPasswordSchema_def ZodString_issues_def sample_isEmail_def)
  have b: "forgotPassword (sample_env accepting_client)
        \<lparr>ForgotPasswordValues.email = ''not-an-email''\<rparr>
     = (Return \<lparr>success = True, message = ''Reset link sent. Please check.'',
                zod_errors = None\<rparr>,
        [Provider (ResetPasswordForEmail ''not-an-email''
                     ''http://localhost:3000/reset-password'')])"
    by (simp add: forgotPassword_def forgotPassword_try_def try_catch_def sample_env_def
        accepting_client_def)
  have c: "safeParse sample_isEmail ResetPasswordSchema
        \<lparr>ResetPasswordValues.password = ''Abcdef1!'', confirmPassword = ''Abcdef2!''\<rparr>
     = SafeParseError [ZodIssue [''confirmPassword''] ''Password don't match'']"
    by (simp add: safeParse_def ResetPasswordSchema_def ZodString_issues_def regex_test_def)
  have d: "resetPassword (sample_env accepting_client)
        \<lparr>ResetPasswordValues.password = ''Abcdef1!'', confirmPassword = ''Abcdef2!''\<rparr>
     = (Return \<lparr>success = True, message = ''Password reset successful. Please Sign in.'',
                zod_errors = None\<rparr>,
        [Provider (UpdateUser ''Abcdef1!'')])"
    by (simp add: resetPassword_def resetPassword_try_def try_catch_def sample_env_def
        accepting_client_def)
  show ?thesis by (intro conjI a b c d)
qed

section \<open>What is forwarded to the provider\<close>

text \<open>
  With a client available, each validating handler invokes its provider operation
  exactly once on a valid input: \<open>signup\<close> with the value the validator produced,
  \<open>signin\<close> with the raw \<open>values\<close> object.
\<close>

lemma signup_forwards_validated:
  assumes "createClient env = Return supabase"
    and "safeParse (isEmail env) SignUpFormSchema values = SafeParseSuccess data"
  shows "provider_calls (snd (signup env values)) = [SignUp data]"
    and "data = values\<lparr>extra := []\<rparr>"
proof -
  show "provider_calls (snd (signup env values)) = [SignUp data]"
    using assms
    by (simp add: signup_def signup_try_def signup_catch_def try_catch_def
        split: completion.splits option.splits)
  show "data = values\<lparr>extra := []\<rparr>"
    using assms(2) by (simp add: safeParse_def SignUpFormSchema_def split: list.splits)
qed

lemma signin_forwards_values:
  assumes "createClient env = Return supabase"
    and "safeParse (isEmail env) SignInFormSchema values = SafeParseSuccess data"
  shows "provider_calls (snd (signin env values)) = [SignInWithPassword values]"
    and "data = values\<lparr>extra := []\<rparr>"
proof -
  show "provider_calls (snd (signin env values)) = [SignInWithPassword values]"
    using assms
    by (simp add: signin_def signin_try_def signin_catch_def try_catch_def
        split: completion.splits option.splits)
  show "data = values\<lparr>extra := []\<rparr>"
    using assms(2) by (simp add: safeParse_def SignInFormSchema_def split: list.splits)
qed

text \<open>
  C2. For every input that passes every rule of its handler's validator, the handler
  invokes the corresponding external provider operation exactly once, and the data it
  forwards to the provider is the validated, normalized value produced by the validator
  (not the raw input object).

  The code at \<open>signin({email: "a@b.com", password: "longpassword1", role: "admin"})\<close>:
  the validator produces the object without \<open>role\<close>, and the provider receives the raw
  object, \<open>role\<close> included.
\<close>

theorem signin_forwards_raw_input:
  "safeParse sample_isEmail SignInFormSchema
     \<lparr>Credentials.email = ''a@b.com'', password = ''longpassword1'',
      extra = [(''role'', ''admin'')]\<rparr>
     = SafeParseSuccess
         \<lparr>Credentials.email = ''a@b.com'', password = ''longpassword1'', extra = []\<rparr>
   \<and> signin (sample_env accepting_client)
        \<lparr>Credentials.email = ''a@b.com'', password = ''longpassword1'',
         extra = [(''role'', ''admin'')]\<rparr>
     = (Return \<lparr>success = True, message = ''Sign in successful'', zod_errors = None\<rparr>,
        [Provider (SignInWithPassword
           \<lparr>Credentials.email = ''a@b.com'', password = ''longpassword1'',
            extra = [(''role'', ''admin'')]\<rparr>)])
   \<and> SignInWithPassword
        \<lparr>Credentials.email = ''a@b.com'', password = ''longpassword1'',
         extra = [(''role'', ''admin'')]\<rparr>
     \<noteq> SignInWithPassword
        \<lparr>Credentials.email = ''a@b.com'', password = ''longpassword1'', extra = []\<rparr>"
proof -
  let ?raw = "\<lparr>Credentials.email = ''a@b.com'', password = ''longpassword1'',
      extra = [(''role'', ''admin'')]\<rparr>"
  have a: "safeParse sample_isEmail SignInFormSchema ?raw
     = SafeParseSuccess
         \<lparr>Credentials.email = ''a@b.com'', password = ''longpassword1'', extra = []\<rparr>"
    by (simp add: safeParse_def SignInFormSchema_def ZodString_issues_def sample_isEmail_def)
  have e: "isEmail (sample_env accepting_client) = sample_isEmail"
    by (simp add: sample_env_def)
  have b: "signin (sample_env accepting_client) ?raw
     = (Return \<lparr>success = True, message = ''Sign in successful'', zod_errors = None\<rparr>,
        [Provider (SignInWithPassword ?raw)])"
    unfolding signin_def signin_try_def e a
    by (simp add: try_catch_def sample_env_def accepting_client_def)
  have c: "SignInWithPassword ?raw
     \<noteq> SignInWithPassword
        \<lparr>Credentials.email = ''a@b.com'', password = ''longpassword1'', extra = []\<rparr>"
    by simp
  show ?thesis by (intro conjI a b c)
qed

end
